theory Spec2Isabelle
  imports Main "HOL-Library.Word" "HOL-Library.AList" "HOL-Library.Sublist"
begin

section \<open>The SQL store of whatsmeow: data model\<close>

text \<open>
  The store keeps cryptographic material of one WhatsApp device in a relational
  database. Every operation of the package \<^verbatim>\<open>sqlstore\<close> renders a statement for the
  dialect of the container and hands it to \<^verbatim>\<open>database/sql\<close>. The embedding keeps
  the Go control flow (dialect tests, retry loops, chunk loops, transactions) and reads
  each statement by its relational meaning on tables with a primary key: a query
  constant of the source appears here, under its name, as the function on the tables
  that its text denotes. \<open>dialectQuery\<close>, which changes the notation of a statement
  and not its meaning, is modelled on the text itself. Whether an engine accepts the
  text of a statement is an answer of the driver, which the world below scripts.
\<close>

type_synonym bytes = "8 word list"

subsection \<open>Errors\<close>

text \<open>
  Go errors are values with a message. \<open>Backend\<close> is an error reported by the driver,
  \<open>Errorf\<close> is \<^verbatim>\<open>fmt.Errorf\<close> without a wrapped cause and \<open>Wrap p e\<close> is
  \<^verbatim>\<open>fmt.Errorf(p + "%w", e)\<close>.
\<close>

datatype error =
    ErrNoRows
  | ErrInvalidLength
  | Backend string
  | Errorf string
  | Wrap string error

fun Error :: "error \<Rightarrow> string" where
  "Error ErrNoRows = ''sql: no rows in result set''"
| "Error ErrInvalidLength = ''database returned byte array with illegal length''"
| "Error (Backend m) = m"
| "Error (Errorf m) = m"
| "Error (Wrap p e) = p @ Error e"

fun errors_Is :: "error \<Rightarrow> error \<Rightarrow> bool" where
  "errors_Is (Wrap p e) t = (Wrap p e = t \<or> errors_Is e t)"
| "errors_Is e t = (e = t)"

subsection \<open>Tables\<close>

record sync_key_row =
  key_data :: bytes
  timestamp :: "64 word"
  fingerprint :: bytes

record version_row =
  version_col :: "64 word"
  hash_col :: bytes

record contact_row =
  first_name :: "string option"
  full_name :: "string option"
  push_name :: "string option"
  business_name :: "string option"

record chat_row =
  muted_until_col :: "64 word"
  pinned_col :: bool
  archived_col :: bool

record pre_key_row =
  key_col :: bytes
  uploaded_col :: bool

text \<open>
  One association list per table of the schema created by \<^verbatim>\<open>upgradeV1\<close> and
  \<^verbatim>\<open>upgradeV3\<close>, from the primary key to the other columns. Of the device table
  the operations below use the primary key only, as the target of the foreign keys.
\<close>

record tables =
  whatsmeow_device :: "string list"
  whatsmeow_identity_keys :: "((string \<times> string) \<times> bytes) list"
  whatsmeow_pre_keys :: "((string \<times> nat) \<times> pre_key_row) list"
  whatsmeow_app_state_sync_keys :: "((string \<times> bytes) \<times> sync_key_row) list"
  whatsmeow_app_state_version :: "((string \<times> string) \<times> version_row) list"
  whatsmeow_app_state_mutation_macs :: "((string \<times> string \<times> 64 word \<times> bytes) \<times> bytes) list"
  whatsmeow_contacts :: "((string \<times> string) \<times> contact_row) list"
  whatsmeow_chat_settings :: "((string \<times> string) \<times> chat_row) list"
  whatsmeow_message_secrets :: "((string \<times> string \<times> string \<times> string) \<times> bytes) list"

subsection \<open>The world around the store\<close>

text \<open>
  \<open>faults\<close> scripts the driver: each call that reaches the database (\<^verbatim>\<open>Begin\<close>,
  \<^verbatim>\<open>Exec\<close>, \<^verbatim>\<open>QueryRow\<close>, \<^verbatim>\<open>Commit\<close>) consumes one entry, \<open>Some m\<close>
  makes that call fail with the message \<open>m\<close> and \<open>None\<close> (or an exhausted script)
  lets the statement run. \<open>slept\<close> records the milliseconds of each
  \<^verbatim>\<open>time.Sleep\<close>, \<open>rng\<close> and \<open>drawn\<close> stand for the key generator of
  \<^verbatim>\<open>keys.NewPreKey\<close>, and \<open>contactCache\<close> is the cache field of the store.
\<close>

record world =
  db :: tables
  faults :: "string option list"
  slept :: "nat list"
  rng :: "nat \<Rightarrow> bytes"
  drawn :: nat
  contactCache :: "(string \<times> contact_row) list"

record store =
  dialect :: string
  JID :: string

definition backend_call :: "world \<Rightarrow> string option \<times> world" where
  "backend_call w =
     (case faults w of
        [] \<Rightarrow> (None, w)
      | f # fs \<Rightarrow> (f, w\<lparr>faults := fs\<rparr>))"

text \<open>\<^verbatim>\<open>QueryRow(...).Scan(...)\<close> of one row selected by its primary key.\<close>

definition query_row :: "('k \<times> 'v) list \<Rightarrow> 'k \<Rightarrow> world \<Rightarrow> (error + 'v) \<times> world" where
  "query_row t k w =
     (case backend_call w of
        (Some m, w') \<Rightarrow> (Inl (Backend m), w')
      | (None, w') \<Rightarrow>
          (case map_of t k of
             None \<Rightarrow> (Inl ErrNoRows, w')
           | Some v \<Rightarrow> (Inr v, w')))"

text \<open>
  \<^verbatim>\<open>Exec\<close> of one statement. The statement is a function on the tables that
  either fails (a constraint of the schema is violated) or returns the new tables; a
  failed statement changes nothing.
\<close>

definition Exec :: "(tables \<Rightarrow> error + tables) \<Rightarrow> world \<Rightarrow> error option \<times> world" where
  "Exec stmt w =
     (case backend_call w of
        (Some m, w') \<Rightarrow> (Some (Backend m), w')
      | (None, w') \<Rightarrow>
          (case stmt (db w') of
             Inl e \<Rightarrow> (Some e, w')
           | Inr t \<Rightarrow> (None, w'\<lparr>db := t\<rparr>)))"

text \<open>
  Transactions. The model is sequential, so a transaction works on the tables in place
  and its handle is the snapshot taken by \<^verbatim>\<open>Begin\<close>: \<^verbatim>\<open>Rollback\<close> puts the
  snapshot back, and a \<^verbatim>\<open>Commit\<close> that fails commits nothing. The result of
  \<^verbatim>\<open>Rollback\<close> is ignored by every caller and consumes no entry of the script.
\<close>

definition Begin :: "world \<Rightarrow> (error + tables) \<times> world" where
  "Begin w =
     (case backend_call w of
        (Some m, w') \<Rightarrow> (Inl (Backend m), w')
      | (None, w') \<Rightarrow> (Inr (db w'), w'))"

definition Rollback :: "tables \<Rightarrow> world \<Rightarrow> world" where
  "Rollback tx w = w\<lparr>db := tx\<rparr>"

definition Commit :: "tables \<Rightarrow> world \<Rightarrow> error option \<times> world" where
  "Commit tx w =
     (case backend_call w of
        (Some m, w') \<Rightarrow> (Some (Backend m), w'\<lparr>db := tx\<rparr>)
      | (None, w') \<Rightarrow> (None, w'))"

definition time_Sleep :: "nat \<Rightarrow> world \<Rightarrow> world" where
  "time_Sleep ms w = w\<lparr>slept := slept w @ [ms]\<rparr>"

subsection \<open>Rows with a primary key\<close>

text \<open>
  A plain \<^verbatim>\<open>INSERT\<close> fails on an existing primary key. \<^verbatim>\<open>ON CONFLICT DO NOTHING\<close>
  keeps the stored row. \<^verbatim>\<open>ON CONFLICT DO UPDATE SET\<close> (and MySQL's
  \<^verbatim>\<open>ON DUPLICATE KEY UPDATE\<close>) replaces the stored row by \<open>f old excluded\<close>, where
  \<open>f\<close> is the assignment list of the clause.
\<close>

definition insert_row :: "'k \<Rightarrow> 'v \<Rightarrow> ('k \<times> 'v) list \<Rightarrow> error + ('k \<times> 'v) list" where
  "insert_row k v t =
     (case map_of t k of
        None \<Rightarrow> Inr (t @ [(k, v)])
      | Some old \<Rightarrow> Inl (Backend ''duplicate entry for the primary key''))"

definition on_conflict_do_nothing :: "'k \<Rightarrow> 'v \<Rightarrow> ('k \<times> 'v) list \<Rightarrow> ('k \<times> 'v) list" where
  "on_conflict_do_nothing k v t =
     (case map_of t k of
        None \<Rightarrow> t @ [(k, v)]
      | Some old \<Rightarrow> t)"

definition on_conflict_do_update ::
  "('v \<Rightarrow> 'v \<Rightarrow> 'v) \<Rightarrow> 'k \<Rightarrow> 'v \<Rightarrow> ('k \<times> 'v) list \<Rightarrow> ('k \<times> 'v) list" where
  "on_conflict_do_update f k v t =
     (case map_of t k of
        None \<Rightarrow> t @ [(k, v)]
      | Some old \<Rightarrow> AList.update k (f old v) t)"

text \<open>
  The other constraints of the schema. Every table of an account has a foreign key to
  the device row, which a new row must satisfy; \<^verbatim>\<open>upgradeV1\<close> declares the
  \<^verbatim>\<open>CHECK\<close> constraints for every dialect but \<^verbatim>\<open>mysql\<close>, whose tables are
  created without them. \<open>guarded ok m r\<close> is the result \<open>r\<close> of a statement when
  the constraint \<open>ok\<close> holds and the error \<open>m\<close> of the engine otherwise.
\<close>

definition guarded :: "bool \<Rightarrow> string \<Rightarrow> error + 'a \<Rightarrow> error + 'a" where
  "guarded ok m r = (if ok then r else Inl (Backend m))"

definition device_row_missing :: "string \<Rightarrow> 'k \<Rightarrow> ('k \<times> 'v) list \<Rightarrow> tables \<Rightarrow> bool" where
  "device_row_missing jid k rows t = (map_of rows k = None \<and> jid \<notin> set (whatsmeow_device t))"

definition schema_checks :: "string \<Rightarrow> bool" where
  "schema_checks d = (d \<noteq> ''mysql'')"

text \<open>
  \<^verbatim>\<open>text LIKE pattern\<close>: \<open>%\<close> matches any run of characters, \<open>_\<close> any single
  character, every other character itself. SQLite, and MySQL under its default
  collations, compare the letters of ASCII without their case; PostgreSQL compares
  them exactly. (Escape characters differ between the engines and are left out.)
\<close>

definition to_lower :: "char \<Rightarrow> char" where
  "to_lower c =
     (case map_of (zip ''ABCDEFGHIJKLMNOPQRSTUVWXYZ'' ''abcdefghijklmnopqrstuvwxyz'') c of
        None \<Rightarrow> c
      | Some l \<Rightarrow> l)"

definition like_folds_case :: "string \<Rightarrow> bool" where
  "like_folds_case d = (d = ''mysql'' \<or> d = ''sqlite3'' \<or> d = ''sqlite'')"

fun sql_like :: "bool \<Rightarrow> string \<Rightarrow> string \<Rightarrow> bool" where
  "sql_like ci [] [] = True"
| "sql_like ci (c # cs) [] = False"
| "sql_like ci [] (p # ps) = (p = CHR ''%'' \<and> sql_like ci [] ps)"
| "sql_like ci (c # cs) (p # ps) =
     (if p = CHR ''%'' then sql_like ci (c # cs) ps \<or> sql_like ci cs (p # ps)
      else (p = CHR ''_'' \<or> (if ci then to_lower p = to_lower c else p = c)) \<and>
           sql_like ci cs ps)"

definition strings_Contains :: "string \<Rightarrow> string \<Rightarrow> bool" where
  "strings_Contains s substr = sublist substr s"

section \<open>The dialect layer\<close>

text \<open>\<^verbatim>\<open>%d\<close> of \<^verbatim>\<open>fmt.Sprintf\<close> for a number that is not negative.\<close>

definition digit_char :: "nat \<Rightarrow> char" where
  "digit_char n = char_of (48 + n)"

function itoa :: "nat \<Rightarrow> string" where
  "itoa n = (if n < 10 then [digit_char n] else itoa (n div 10) @ [digit_char (n mod 10)])"
  by pat_completeness auto
termination
  by (relation "measure (\<lambda>n. n)") auto

text \<open>
  \<^verbatim>\<open>strings.ReplaceAll(s, old, new)\<close>, which is also \<^verbatim>\<open>strings.Replace\<close> with the
  count \<^verbatim>\<open>-1\<close>: the occurrences of \<open>old\<close> are found from the left and do not
  overlap. For an empty \<open>old\<close> Go puts \<open>new\<close> before every character and at the
  end (exact for ASCII text; the store never passes an empty \<open>old\<close>).
\<close>

function ReplaceAll :: "string \<Rightarrow> string \<Rightarrow> string \<Rightarrow> string" where
  "ReplaceAll s old new =
     (if old = [] then new @ concat (map (\<lambda>c. c # new) s)
      else if s = [] then []
      else if prefix old s then new @ ReplaceAll (drop (length old) s) old new
      else hd s # ReplaceAll (tl s) old new)"
  by pat_completeness auto
termination
  by (relation "measure (\<lambda>(s, old, new). length s)") auto

text \<open>The block of \<^verbatim>\<open>dialectQuery\<close> that runs for MySQL only, in the order of the source.\<close>

definition mysql_rewrites :: "string \<Rightarrow> string" where
  "mysql_rewrites result0 =
     (let result = ReplaceAll result0 ''key FROM'' ''`key` FROM'';
          result = ReplaceAll result ''key_id, key FROM'' ''key_id, `key` FROM'';
          result = ReplaceAll result ''(jid, key_id, key, uploaded)'' ''(jid, key_id, `key`, uploaded)'';
          result = ReplaceAll result ''message_id, key)'' ''message_id, `key`)'';
          result = ReplaceAll result
            ''WHERE VALUES(timestamp) > whatsmeow_app_state_sync_keys.timestamp''
            '''';
          result = ReplaceAll result
            ''ON CONFLICT (our_jid, their_id) DO UPDATE SET identity=excluded.identity''
            ''ON DUPLICATE KEY UPDATE identity=VALUES(identity)'';
          result = ReplaceAll result
            ''ON CONFLICT (our_jid, their_id) DO UPDATE SET session=excluded.session''
            ''ON DUPLICATE KEY UPDATE session=VALUES(session)'';
          result = ReplaceAll result
            ''ON CONFLICT (our_jid, chat_jid) DO UPDATE SET''
            ''ON DUPLICATE KEY UPDATE'';
          result = ReplaceAll result
            ''ON CONFLICT (our_jid, chat_id, sender_id) DO UPDATE SET sender_key=excluded.sender_key''
            ''ON DUPLICATE KEY UPDATE sender_key=VALUES(sender_key)'';
          result = ReplaceAll result
            ''ON CONFLICT (jid, key_id) DO UPDATE''
            ''ON DUPLICATE KEY UPDATE'';
          result = ReplaceAll result
            ''ON CONFLICT (jid, name) DO UPDATE SET version=excluded.version, hash=excluded.hash''
            ''ON DUPLICATE KEY UPDATE version=VALUES(version), hash=VALUES(hash)'';
          result = ReplaceAll result
            ''ON CONFLICT (our_jid, their_jid) DO UPDATE SET first_name=excluded.first_name, full_name=excluded.full_name''
            ''ON DUPLICATE KEY UPDATE first_name=VALUES(first_name), full_name=VALUES(full_name)'';
          result = ReplaceAll result
            ''ON CONFLICT (our_jid, their_jid) DO UPDATE SET push_name=excluded.push_name''
            ''ON DUPLICATE KEY UPDATE push_name=VALUES(push_name)'';
          result = ReplaceAll result
            ''ON CONFLICT (our_jid, their_jid) DO UPDATE SET business_name=excluded.business_name''
            ''ON DUPLICATE KEY UPDATE business_name=VALUES(business_name)'';
          result = ReplaceAll result
            ''ON CONFLICT (our_jid, chat_jid, sender_jid, message_id) DO NOTHING''
            ''ON DUPLICATE KEY UPDATE our_jid=our_jid'';
          result = ReplaceAll result
            ''ON CONFLICT (jid, key_id) DO UPDATE SET key_data=excluded.key_data, timestamp=excluded.timestamp, fingerprint=excluded.fingerprint WHERE excluded.timestamp > whatsmeow_app_state_sync_keys.timestamp''
            ''ON DUPLICATE KEY UPDATE key_data=VALUES(key_data), timestamp=VALUES(timestamp), fingerprint=VALUES(fingerprint) WHERE VALUES(timestamp) > whatsmeow_app_state_sync_keys.timestamp''
      in result)"

text \<open>
  \<^verbatim>\<open>dialectQuery\<close>. The loop \<^verbatim>\<open>for i := 1; i <= 20; i++\<close> replaces
  \<^verbatim>\<open>fmt.Sprintf("$%d", i)\<close> by \<^verbatim>\<open>?\<close>, one number after the other.
\<close>

definition dialectQuery :: "store \<Rightarrow> string \<Rightarrow> string" where
  "dialectQuery s query =
     (if dialect s = ''mysql'' \<or> dialect s = ''sqlite3'' then
        (let result = fold (\<lambda>i result. ReplaceAll result (CHR ''$'' # itoa i) ''?'') [1..<21] query
         in if dialect s = ''mysql'' then mysql_rewrites result else result)
      else query)"

text \<open>
  The engines do not read the same notation. The templates of the store differ for
  them in one point: the back-quoted identifier \<^verbatim>\<open>`key`\<close>, which MySQL and SQLite
  read and PostgreSQL refuses as a syntax error. \<open>is_postgres\<close> is the test by which
  \<^verbatim>\<open>upgradeV2\<close> recognises PostgreSQL. \<open>parsed d query stmt\<close> is the statement
  \<open>stmt\<close> sent as the text \<open>query\<close> to the engine of the dialect \<open>d\<close>.
\<close>

definition is_postgres :: "string \<Rightarrow> bool" where
  "is_postgres d = (strings_Contains d ''postgres'' \<or> d = ''pgx'')"

definition engine_parses :: "string \<Rightarrow> string \<Rightarrow> bool" where
  "engine_parses d query = (\<not> (is_postgres d \<and> CHR 0x60 \<in> set query))"

definition parsed ::
  "string \<Rightarrow> string \<Rightarrow> (tables \<Rightarrow> error + tables) \<Rightarrow> tables \<Rightarrow> error + tables" where
  "parsed d query stmt t =
     (if engine_parses d query then stmt t
      else Inl (Backend ''syntax error at or near `''))"

subsection \<open>What the specification says about markers\<close>

definition is_digit :: "char \<Rightarrow> bool" where
  "is_digit c = (c \<in> set ''0123456789'')"

text \<open>
  A positional marker is \<open>$\<close> followed by a number, read as the longest run of digits.
  \<open>rewrite_markers\<close> puts \<open>?\<close> in place of every marker and keeps everything else,
  so the question marks stand in the order of the markers; \<open>marker_numbers\<close> lists
  the numbers of the markers as they are written.
\<close>

function rewrite_markers :: "string \<Rightarrow> string" where
  "rewrite_markers [] = []"
| "rewrite_markers (c # cs) =
     (if c = CHR ''$'' \<and> takeWhile is_digit cs \<noteq> []
      then CHR ''?'' # rewrite_markers (dropWhile is_digit cs)
      else c # rewrite_markers cs)"
  by pat_completeness auto
termination
  by (relation "measure length") (auto simp: length_dropWhile_le le_imp_less_Suc)

function marker_numbers :: "string \<Rightarrow> string list" where
  "marker_numbers [] = []"
| "marker_numbers (c # cs) =
     (if c = CHR ''$'' \<and> takeWhile is_digit cs \<noteq> []
      then takeWhile is_digit cs # marker_numbers (dropWhile is_digit cs)
      else marker_numbers cs)"
  by pat_completeness auto
termination
  by (relation "measure length") (auto simp: length_dropWhile_le le_imp_less_Suc)

definition marker_chars :: "string \<Rightarrow> string" where
  "marker_chars q = filter (\<lambda>c. c = CHR ''?'' \<or> c = CHR ''$'') q"

text \<open>
  Templates whose markers are all among \<^verbatim>\<open>$1\<close> to \<^verbatim>\<open>$9\<close>.
\<close>

definition small_markers :: "string \<Rightarrow> bool" where
  "small_markers q = (\<forall>m \<in> set (marker_numbers q). m \<in> set (map itoa [1..<10]))"

subsection \<open>Auxiliary functions of the proofs\<close>

text \<open>One pass that replaces \<open>$d\<close> by \<open>?\<close> for the characters \<open>d\<close> of a set.\<close>

fun subst_markers :: "char set \<Rightarrow> string \<Rightarrow> string" where
  "subst_markers D [] = []"
| "subst_markers D [c] = [c]"
| "subst_markers D (c # d # cs) =
     (if c = CHR ''$'' \<and> d \<in> D then CHR ''?'' # subst_markers D cs
      else c # subst_markers D (d # cs))"


definition digits19 :: "char set" where
  "digits19 = set ''123456789''"

section \<open>Identity keys\<close>

text \<open>
  \<^verbatim>\<open>putIdentityQuery\<close> and the two literal statements of \<^verbatim>\<open>PutIdentity\<close>:
  \<^verbatim>\<open>INSERT INTO whatsmeow_identity_keys (our_jid, their_id, identity) VALUES (...)\<close>
  followed by \<^verbatim>\<open>ON CONFLICT (our_jid, their_id) DO UPDATE SET identity=excluded.identity\<close>
  or, for MySQL, \<^verbatim>\<open>ON DUPLICATE KEY UPDATE identity=VALUES(identity)\<close>.
\<close>

definition putIdentityQuery ::
  "string \<Rightarrow> string \<Rightarrow> string \<Rightarrow> bytes \<Rightarrow> tables \<Rightarrow> error + tables" where
  "putIdentityQuery d our_jid their_id identity t =
     guarded (if schema_checks d then length identity = 32 else True) ''check constraint violated''
       (guarded (\<not> device_row_missing our_jid (our_jid, their_id) (whatsmeow_identity_keys t) t)
          ''foreign key constraint fails''
          (Inr (t\<lparr>whatsmeow_identity_keys :=
                     on_conflict_do_update (\<lambda>old excluded. excluded) (our_jid, their_id) identity
                       (whatsmeow_identity_keys t)\<rparr>)))"

definition putIdentityQueryMySQL ::
  "string \<Rightarrow> string \<Rightarrow> string \<Rightarrow> bytes \<Rightarrow> tables \<Rightarrow> error + tables" where
  "putIdentityQueryMySQL = putIdentityQuery"

definition putIdentityQuerySQLite ::
  "string \<Rightarrow> string \<Rightarrow> string \<Rightarrow> bytes \<Rightarrow> tables \<Rightarrow> error + tables" where
  "putIdentityQuerySQLite = putIdentityQuery"

text \<open>
  \<^verbatim>\<open>deleteAllIdentitiesQuery\<close>:
  \<^verbatim>\<open>DELETE FROM whatsmeow_identity_keys WHERE our_jid=$1 AND their_id LIKE $2\<close>
\<close>

definition deleteAllIdentitiesQuery ::
  "string \<Rightarrow> string \<Rightarrow> string \<Rightarrow> tables \<Rightarrow> error + tables" where
  "deleteAllIdentitiesQuery d our_jid pattern t =
     Inr (t\<lparr>whatsmeow_identity_keys :=
              filter (\<lambda>((j, their_id), identity).
                        \<not> (j = our_jid \<and> sql_like (like_folds_case d) their_id pattern))
                (whatsmeow_identity_keys t)\<rparr>)"

text \<open>
  \<^verbatim>\<open>deleteIdentityQuery\<close>:
  \<^verbatim>\<open>DELETE FROM whatsmeow_identity_keys WHERE our_jid=$1 AND their_id=$2\<close>
  (declared beside the others; no function of the store uses it).
\<close>

definition deleteIdentityQuery :: "string \<Rightarrow> string \<Rightarrow> tables \<Rightarrow> error + tables" where
  "deleteIdentityQuery our_jid address t =
     Inr (t\<lparr>whatsmeow_identity_keys :=
              filter (\<lambda>((j, their_id), identity). \<not> (j = our_jid \<and> their_id = address))
                (whatsmeow_identity_keys t)\<rparr>)"

definition PutIdentity :: "store \<Rightarrow> string \<Rightarrow> bytes \<Rightarrow> world \<Rightarrow> error option \<times> world" where
  "PutIdentity s address key w =
     (let query = (if dialect s = ''mysql'' then putIdentityQueryMySQL
                   else if dialect s = ''sqlite3'' then putIdentityQuerySQLite
                   else putIdentityQuery)
      in Exec (query (dialect s) (JID s) address key) w)"

definition DeleteAllIdentities :: "store \<Rightarrow> string \<Rightarrow> world \<Rightarrow> error option \<times> world" where
  "DeleteAllIdentities s phone w =
     Exec (deleteAllIdentitiesQuery (dialect s) (JID s) (phone @ '':%'')) w"

definition DeleteIdentity :: "store \<Rightarrow> string \<Rightarrow> world \<Rightarrow> error option \<times> world" where
  "DeleteIdentity s address w = Exec (deleteAllIdentitiesQuery (dialect s) (JID s) address) w"

text \<open>
  \<^verbatim>\<open>getIdentityQuery\<close>:
  \<^verbatim>\<open>SELECT identity FROM whatsmeow_identity_keys WHERE our_jid=$1 AND their_id=$2\<close>
\<close>

definition getIdentityQuery :: "store \<Rightarrow> string \<Rightarrow> world \<Rightarrow> (error + bytes) \<times> world" where
  "getIdentityQuery s address w = query_row (whatsmeow_identity_keys (db w)) (JID s, address) w"

definition IsTrustedIdentity ::
  "store \<Rightarrow> string \<Rightarrow> bytes \<Rightarrow> world \<Rightarrow> (bool \<times> error option) \<times> world" where
  "IsTrustedIdentity s address key w =
     (case getIdentityQuery s address w of
        (Inl err, w') \<Rightarrow>
          if errors_Is err ErrNoRows then ((True, None), w')
          else ((False, Some err), w')
      | (Inr existingIdentity, w') \<Rightarrow>
          if length existingIdentity \<noteq> 32 then ((False, Some ErrInvalidLength), w')
          else ((existingIdentity = key, None), w'))"

section \<open>Pre-keys\<close>

record PreKey =
  KeyID :: "32 word"
  Priv :: bytes

text \<open>\<^verbatim>\<open>keys.NewPreKey\<close> draws a fresh private key.\<close>

definition NewPreKey :: "32 word \<Rightarrow> world \<Rightarrow> PreKey \<times> world" where
  "NewPreKey id' w = (\<lparr> KeyID = id', Priv = rng w (drawn w) \<rparr>, w\<lparr>drawn := drawn w + 1\<rparr>)"

text \<open>
  The text of \<^verbatim>\<open>insertPreKeyQuery\<close> and the literal MySQL statement of
  \<^verbatim>\<open>genOnePreKey\<close>.
\<close>

definition insertPreKeyQuery_text :: string where
  "insertPreKeyQuery_text =
     ''INSERT INTO whatsmeow_pre_keys (jid, key_id, `key`, uploaded) VALUES ($1, $2, $3, $4)''"

definition insertPreKeyMySQL_text :: string where
  "insertPreKeyMySQL_text =
     ''INSERT INTO whatsmeow_pre_keys (jid, key_id, `key`, uploaded) VALUES (?, ?, ?, ?)''"

text \<open>
  What the two texts denote: a plain insert into \<^verbatim>\<open>whatsmeow_pre_keys\<close>, whose
  schema has \<^verbatim>\<open>CHECK ( key_id >= 0 AND key_id < 16777216 )\<close> and
  \<^verbatim>\<open>CHECK ( length(key) = 32 )\<close> for the dialects other than \<^verbatim>\<open>mysql\<close>.
\<close>

definition insertPreKeyQuery ::
  "string \<Rightarrow> string \<Rightarrow> 32 word \<Rightarrow> bytes \<Rightarrow> bool \<Rightarrow> tables \<Rightarrow> error + tables" where
  "insertPreKeyQuery d jid key_id k up t =
     guarded (if schema_checks d then unat key_id < 16777216 \<and> length k = 32 else True)
       ''check constraint violated''
       (guarded (jid \<in> set (whatsmeow_device t)) ''foreign key constraint fails''
          (case insert_row (jid, unat key_id) \<lparr> key_col = k, uploaded_col = up \<rparr>
                  (whatsmeow_pre_keys t) of
             Inl e \<Rightarrow> Inl e
           | Inr rows \<Rightarrow> Inr (t\<lparr>whatsmeow_pre_keys := rows\<rparr>)))"

text \<open>
  \<^verbatim>\<open>getLastPreKeyIDQuery\<close>: \<^verbatim>\<open>SELECT MAX(key_id) FROM whatsmeow_pre_keys WHERE jid=$1\<close>,
  which is \<^verbatim>\<open>NULL\<close> when the account has no pre-key.
\<close>

definition key_ids :: "string \<Rightarrow> tables \<Rightarrow> nat list" where
  "key_ids jid t = map (\<lambda>((j, key_id), r). key_id) (filter (\<lambda>((j, key_id), r). j = jid) (whatsmeow_pre_keys t))"

definition sql_MAX :: "nat list \<Rightarrow> nat option" where
  "sql_MAX xs = (case xs of [] \<Rightarrow> None | y # ys \<Rightarrow> Some (fold max ys y))"

definition getLastPreKeyIDQuery :: "string \<Rightarrow> world \<Rightarrow> (error + nat option) \<times> world" where
  "getLastPreKeyIDQuery jid w =
     (case backend_call w of
        (Some m, w') \<Rightarrow> (Inl (Backend m), w')
      | (None, w') \<Rightarrow> (Inr (sql_MAX (key_ids jid (db w'))), w'))"

text \<open>
  \<^verbatim>\<open>Scan\<close> into an \<^verbatim>\<open>sql.NullInt32\<close>: \<^verbatim>\<open>NULL\<close> leaves \<^verbatim>\<open>Int32\<close> at zero, and a
  value that does not fit 32 signed bits is a conversion error.
\<close>

definition scan_NullInt32 :: "nat option \<Rightarrow> error + 32 word" where
  "scan_NullInt32 v =
     (case v of
        None \<Rightarrow> Inr 0
      | Some n \<Rightarrow> if n < 2 ^ 31 then Inr (of_nat n)
                  else Inl (Errorf ''sql: Scan error on column index 0: value out of range''))"

definition getNextPreKeyID :: "store \<Rightarrow> world \<Rightarrow> (error + 32 word) \<times> world" where
  "getNextPreKeyID s w =
     (case getLastPreKeyIDQuery (JID s) w of
        (Inl err, w') \<Rightarrow> (Inl (Wrap ''failed to query next prekey ID: '' err), w')
      | (Inr v, w') \<Rightarrow>
          (case scan_NullInt32 v of
             Inl err \<Rightarrow> (Inl (Wrap ''failed to query next prekey ID: '' err), w')
           | Inr lastKeyID \<Rightarrow> (Inr (lastKeyID + 1), w')))"

definition genOnePreKey ::
  "store \<Rightarrow> 32 word \<Rightarrow> bool \<Rightarrow> world \<Rightarrow> (PreKey \<times> error option) \<times> world" where
  "genOnePreKey s id' markUploaded w =
     (case NewPreKey id' w of
        (k, w1) \<Rightarrow>
          (let query = (if dialect s = ''mysql'' then insertPreKeyMySQL_text
                        else dialectQuery s insertPreKeyQuery_text)
           in case Exec (parsed (dialect s) query
                           (insertPreKeyQuery (dialect s) (JID s) (KeyID k) (Priv k) markUploaded))
                     w1 of
                (err, w2) \<Rightarrow> ((k, err), w2)))"

definition GenOnePreKey :: "store \<Rightarrow> world \<Rightarrow> (PreKey option \<times> error option) \<times> world" where
  "GenOnePreKey s w =
     (case getNextPreKeyID s w of
        (Inl err, w') \<Rightarrow> ((None, Some err), w')
      | (Inr nextKeyID, w') \<Rightarrow>
          (case genOnePreKey s nextKeyID True w' of
             ((k, err), w'') \<Rightarrow> ((Some k, err), w'')))"

text \<open>
  \<^verbatim>\<open>getUploadedPreKeyCountQuery\<close>:
  \<^verbatim>\<open>SELECT COUNT(*) FROM whatsmeow_pre_keys WHERE jid=$1 AND uploaded=true\<close>
\<close>

definition UploadedPreKeyCount :: "store \<Rightarrow> world \<Rightarrow> (int \<times> error option) \<times> world" where
  "UploadedPreKeyCount s w =
     (case backend_call w of
        (Some m, w') \<Rightarrow> ((0, Some (Backend m)), w')
      | (None, w') \<Rightarrow>
          ((int (length (filter (\<lambda>((j, key_id), r). j = JID s \<and> uploaded_col r)
                           (whatsmeow_pre_keys (db w')))), None), w'))"

section \<open>App state sync keys\<close>

record AppStateSyncKey =
  Data :: bytes
  Fingerprint :: bytes
  Timestamp :: "64 word"

text \<open>
  \<^verbatim>\<open>putAppStateSyncKeyQuery\<close>: the insert with
  \<^verbatim>\<open>ON CONFLICT (jid, key_id) DO UPDATE SET key_data=excluded.key_data,
  timestamp=excluded.timestamp, fingerprint=excluded.fingerprint
  WHERE excluded.timestamp > whatsmeow_app_state_sync_keys.timestamp\<close>.
  The column is a signed \<^verbatim>\<open>BIGINT\<close>.
\<close>

definition putAppStateSyncKeyQuery ::
  "string \<Rightarrow> bytes \<Rightarrow> sync_key_row \<Rightarrow> tables \<Rightarrow> error + tables" where
  "putAppStateSyncKeyQuery jid key_id row t =
     guarded (\<not> device_row_missing jid (jid, key_id) (whatsmeow_app_state_sync_keys t) t)
       ''foreign key constraint fails''
       (Inr (t\<lparr>whatsmeow_app_state_sync_keys :=
                  on_conflict_do_update
                    (\<lambda>old excluded. if sint (timestamp old) < sint (timestamp excluded)
                                    then excluded else old)
                    (jid, key_id) row (whatsmeow_app_state_sync_keys t)\<rparr>))"

text \<open>
  The literal statement of the MySQL branch of \<^verbatim>\<open>PutAppStateSyncKey\<close>:
  \<^verbatim>\<open>ON DUPLICATE KEY UPDATE key_data=VALUES(key_data), timestamp=VALUES(timestamp),
  fingerprint=VALUES(fingerprint)\<close>, without a condition.
\<close>

definition putAppStateSyncKeyMySQL ::
  "string \<Rightarrow> bytes \<Rightarrow> sync_key_row \<Rightarrow> tables \<Rightarrow> error + tables" where
  "putAppStateSyncKeyMySQL jid key_id row t =
     guarded (\<not> device_row_missing jid (jid, key_id) (whatsmeow_app_state_sync_keys t) t)
       ''foreign key constraint fails''
       (Inr (t\<lparr>whatsmeow_app_state_sync_keys :=
                  on_conflict_do_update (\<lambda>old excluded. excluded)
                    (jid, key_id) row (whatsmeow_app_state_sync_keys t)\<rparr>))"

definition sync_key_args :: "AppStateSyncKey \<Rightarrow> sync_key_row" where
  "sync_key_args k = \<lparr> key_data = Data k, timestamp = Timestamp k, fingerprint = Fingerprint k \<rparr>"

definition PutAppStateSyncKey ::
  "store \<Rightarrow> bytes \<Rightarrow> AppStateSyncKey \<Rightarrow> world \<Rightarrow> error option \<times> world" where
  "PutAppStateSyncKey s id' k w =
     (if dialect s = ''mysql'' then
        (case Begin w of
           (Inl err, w1) \<Rightarrow> (Some err, w1)
         | (Inr tx, w1) \<Rightarrow>
             (case Exec (putAppStateSyncKeyMySQL (JID s) id' (sync_key_args k)) w1 of
                (Some err, w2) \<Rightarrow> (Some err, Rollback tx w2)
              | (None, w2) \<Rightarrow> Commit tx w2))
      else Exec (putAppStateSyncKeyQuery (JID s) id' (sync_key_args k)) w)"

section \<open>Chat settings\<close>










text \<open>
  JIDs come from the package \<^verbatim>\<open>types\<close>. The store uses three of their methods, which
  the operations below take as a parameter: the rendering \<^verbatim>\<open>String\<close> (also the value
  handed to the driver), \<^verbatim>\<open>IsEmpty\<close> and \<^verbatim>\<open>ToNonAD\<close>.
\<close>

record 'j jid_ops =
  String :: "'j \<Rightarrow> string"
  IsEmpty :: "'j \<Rightarrow> bool"
  ToNonAD :: "'j \<Rightarrow> 'j"




section \<open>Message secrets\<close>

text \<open>
  The text of \<^verbatim>\<open>putMsgSecret\<close>, with its line breaks and tabs, and the literal
  MySQL statement of \<^verbatim>\<open>PutMessageSecret\<close> and \<^verbatim>\<open>putMessageSecretsInternal\<close>,
  whose continuation lines are indented by five and by four tabs.
\<close>

definition putMsgSecret_text :: string where
  "putMsgSecret_text =
     [CHR 0x0A, CHR 0x09, CHR 0x09] @
     ''INSERT INTO whatsmeow_message_secrets (our_jid, chat_jid, sender_jid, message_id, `key`)'' @
     [CHR 0x0A, CHR 0x09, CHR 0x09] @
     ''VALUES ($1, $2, $3, $4, $5)'' @
     [CHR 0x0A, CHR 0x09, CHR 0x09] @
     ''ON CONFLICT (our_jid, chat_jid, sender_jid, message_id) DO NOTHING'' @
     [CHR 0x0A, CHR 0x09]"

definition putMsgSecretMySQL_text :: "nat \<Rightarrow> string" where
  "putMsgSecretMySQL_text tabs =
     ''INSERT INTO whatsmeow_message_secrets (our_jid, chat_jid, sender_jid, message_id, `key`)'' @
     CHR 0x0A # replicate tabs (CHR 0x09) @
     ''VALUES (?, ?, ?, ?, ?)'' @
     CHR 0x0A # replicate tabs (CHR 0x09) @
     ''ON DUPLICATE KEY UPDATE our_jid=our_jid''"

text \<open>
  What \<^verbatim>\<open>putMsgSecret\<close> denotes: the insert with
  \<^verbatim>\<open>ON CONFLICT (our_jid, chat_jid, sender_jid, message_id) DO NOTHING\<close>.
\<close>

definition putMsgSecret ::
  "string \<Rightarrow> string \<Rightarrow> string \<Rightarrow> string \<Rightarrow> bytes \<Rightarrow> tables \<Rightarrow> error + tables" where
  "putMsgSecret our_jid chat_jid sender_jid message_id secret t =
     guarded (\<not> device_row_missing our_jid (our_jid, chat_jid, sender_jid, message_id)
                  (whatsmeow_message_secrets t) t)
       ''foreign key constraint fails''
       (Inr (t\<lparr>whatsmeow_message_secrets :=
                  on_conflict_do_nothing (our_jid, chat_jid, sender_jid, message_id) secret
                    (whatsmeow_message_secrets t)\<rparr>))"

text \<open>
  What the literal MySQL statement denotes: the insert with
  \<^verbatim>\<open>ON DUPLICATE KEY UPDATE our_jid=our_jid\<close>, an update that assigns a column of
  the stored row to itself.
\<close>

definition putMsgSecretMySQL ::
  "string \<Rightarrow> string \<Rightarrow> string \<Rightarrow> string \<Rightarrow> bytes \<Rightarrow> tables \<Rightarrow> error + tables" where
  "putMsgSecretMySQL our_jid chat_jid sender_jid message_id secret t =
     guarded (\<not> device_row_missing our_jid (our_jid, chat_jid, sender_jid, message_id)
                  (whatsmeow_message_secrets t) t)
       ''foreign key constraint fails''
       (Inr (t\<lparr>whatsmeow_message_secrets :=
                  on_conflict_do_update (\<lambda>old excluded. old)
                    (our_jid, chat_jid, sender_jid, message_id) secret
                    (whatsmeow_message_secrets t)\<rparr>))"

text \<open>
  \<^verbatim>\<open>getMsgSecret\<close>: \<^verbatim>\<open>SELECT key FROM whatsmeow_message_secrets WHERE our_jid=$1 AND
  chat_jid=$2 AND sender_jid=$3 AND message_id=$4\<close>
\<close>

definition getMsgSecret ::
  "string \<Rightarrow> string \<Rightarrow> string \<Rightarrow> string \<Rightarrow> world \<Rightarrow> (error + bytes) \<times> world" where
  "getMsgSecret our_jid chat_jid sender_jid message_id w =
     query_row (whatsmeow_message_secrets (db w)) (our_jid, chat_jid, sender_jid, message_id) w"

text \<open>
  The MySQL branch of \<^verbatim>\<open>PutMessageSecret\<close>: up to three attempts, repeated while the
  error message contains \<^verbatim>\<open>Lock wait timeout exceeded\<close>, sleeping
  \<^verbatim>\<open>50*(attempt+1)\<close> milliseconds after each such failure. \<open>err\<close> is the named
  result, which keeps the error of the last attempt.
\<close>

function put_secret_attempts ::
  "'j jid_ops \<Rightarrow> store \<Rightarrow> 'j \<Rightarrow> 'j \<Rightarrow> string \<Rightarrow> bytes \<Rightarrow> nat \<Rightarrow> error option \<Rightarrow> world
     \<Rightarrow> error option \<times> world" where
  "put_secret_attempts J s chat sender id' secret attempt err w =
     (if attempt < 3 then
        (case Exec (parsed (dialect s) (putMsgSecretMySQL_text 5)
                      (putMsgSecretMySQL (JID s) (String J (ToNonAD J chat))
                         (String J (ToNonAD J sender)) id' secret)) w of
           (None, w') \<Rightarrow> (None, w')
         | (Some e, w') \<Rightarrow>
             if \<not> strings_Contains (Error e) ''Lock wait timeout exceeded'' then (Some e, w')
             else put_secret_attempts J s chat sender id' secret (attempt + 1) (Some e)
                    (time_Sleep (50 * (attempt + 1)) w'))
      else (err, w))"
  by pat_completeness auto
termination
  by (relation "measure (\<lambda>(J, s, chat, sender, id', secret, attempt, err, w). 3 - attempt)") auto

definition PutMessageSecret ::
  "'j jid_ops \<Rightarrow> store \<Rightarrow> 'j \<Rightarrow> 'j \<Rightarrow> string \<Rightarrow> bytes \<Rightarrow> world \<Rightarrow> error option \<times> world" where
  "PutMessageSecret J s chat sender id' secret w =
     (if dialect s = ''mysql'' then put_secret_attempts J s chat sender id' secret 0 None w
      else Exec (parsed (dialect s) (dialectQuery s putMsgSecret_text)
                   (putMsgSecret (JID s) (String J (ToNonAD J chat))
                      (String J (ToNonAD J sender)) id' secret)) w)"

definition GetMessageSecret ::
  "'j jid_ops \<Rightarrow> store \<Rightarrow> 'j \<Rightarrow> 'j \<Rightarrow> string \<Rightarrow> world \<Rightarrow> (bytes \<times> error option) \<times> world" where
  "GetMessageSecret J s chat sender id' w =
     (case getMsgSecret (JID s) (String J (ToNonAD J chat)) (String J (ToNonAD J sender)) id' w of
        (Inl err, w') \<Rightarrow>
          if errors_Is err ErrNoRows then (([], None), w') else (([], Some err), w')
      | (Inr secret, w') \<Rightarrow> ((secret, None), w'))"

section \<open>App state versions\<close>

text \<open>
  \<^verbatim>\<open>getAppStateVersionQuery\<close>:
  \<^verbatim>\<open>SELECT version, hash FROM whatsmeow_app_state_version WHERE jid=$1 AND name=$2\<close>
\<close>

definition getAppStateVersionQuery ::
  "store \<Rightarrow> string \<Rightarrow> world \<Rightarrow> (error + version_row) \<times> world" where
  "getAppStateVersionQuery s name w = query_row (whatsmeow_app_state_version (db w)) (JID s, name) w"

text \<open>
  The column \<^verbatim>\<open>version\<close> is a signed \<^verbatim>\<open>BIGINT\<close>, here the 64 bits of its
  two's complement. \<^verbatim>\<open>Scan\<close> into a \<^verbatim>\<open>uint64\<close> refuses a negative number, and
  stops at the first column it cannot convert.
\<close>

definition scan_uint64 :: "64 word \<Rightarrow> error + 64 word" where
  "scan_uint64 v =
     (if sint v < 0
      then Inl (Errorf ''sql: Scan error on column index 0: converting a negative number to a uint64'')
      else Inr v)"

text \<open>
  The named results \<^verbatim>\<open>version\<close> and \<^verbatim>\<open>hash\<close> start as the zero values of
  \<^verbatim>\<open>uint64\<close> and \<^verbatim>\<open>[128]byte\<close>; \<^verbatim>\<open>Scan\<close> fills \<^verbatim>\<open>version\<close> when a row came back.
\<close>

definition GetAppStateVersion ::
  "store \<Rightarrow> string \<Rightarrow> world \<Rightarrow> (64 word \<times> bytes \<times> error option) \<times> world" where
  "GetAppStateVersion s name w =
     (case getAppStateVersionQuery s name w of
        (Inl err, w') \<Rightarrow>
          if errors_Is err ErrNoRows then ((0, replicate 128 0, None), w')
          else ((0, replicate 128 0, Some err), w')
      | (Inr row, w') \<Rightarrow>
          (case scan_uint64 (version_col row) of
             Inl err \<Rightarrow> ((0, replicate 128 0, Some err), w')
           | Inr version \<Rightarrow>
               if length (hash_col row) \<noteq> 128
               then ((version, replicate 128 0, Some ErrInvalidLength), w')
               else ((version, hash_col row, None), w')))"

section \<open>Batches\<close>

text \<open>
  The arguments handed to \<^verbatim>\<open>Exec\<close> and the placeholder groups of a \<^verbatim>\<open>VALUES\<close>
  list: \<open>QuestionMarks n\<close> is a group of \<open>n\<close> markers \<^verbatim>\<open>?\<close> and \<open>Dollars ns\<close> a
  group of numbered markers \<^verbatim>\<open>$N\<close>.
\<close>

datatype arg = AString string | AUint64 "64 word" | ABytes bytes

datatype placeholder_group = QuestionMarks nat | Dollars "nat list"

fun question_marks :: "placeholder_group \<Rightarrow> nat" where
  "question_marks (QuestionMarks n) = n"
| "question_marks (Dollars ns) = 0"

fun dollar_numbers :: "placeholder_group \<Rightarrow> nat list" where
  "dollar_numbers (QuestionMarks n) = []"
| "dollar_numbers (Dollars ns) = ns"

text \<open>
  The number of parameters a statement needs: its question marks, or the highest
  number of its numbered markers. \<^verbatim>\<open>database/sql\<close> and the drivers refuse a call
  that supplies another number of arguments.
\<close>

definition params_required :: "placeholder_group list \<Rightarrow> nat" where
  "params_required groups =
     max (sum_list (map question_marks groups)) (fold max (concat (map dollar_numbers groups)) 0)"

fun bind_groups :: "arg list \<Rightarrow> nat \<Rightarrow> placeholder_group list \<Rightarrow> arg list list" where
  "bind_groups args pos [] = []"
| "bind_groups args pos (QuestionMarks n # groups) =
     take n (drop pos args) # bind_groups args (pos + n) groups"
| "bind_groups args pos (Dollars ns # groups) =
     map (\<lambda>n. args ! (n - 1)) ns # bind_groups args pos groups"

definition bind_values :: "placeholder_group list \<Rightarrow> arg list \<Rightarrow> error + arg list list" where
  "bind_values groups args =
     (if groups = [] \<or> 0 \<in> set (concat (map dollar_numbers groups))
      then Inl (Backend ''syntax error in the VALUES list'')
      else if params_required groups \<noteq> length args
      then Inl (Backend (''sql: expected '' @ itoa (params_required groups) @
                         '' arguments, got '' @ itoa (length args)))
      else Inr (bind_groups args 0 groups))"

text \<open>A plain \<^verbatim>\<open>INSERT\<close> of several rows is one statement: one duplicate fails it all.\<close>

fun insert_rows :: "('k \<times> 'v) list \<Rightarrow> ('k \<times> 'v) list \<Rightarrow> error + ('k \<times> 'v) list" where
  "insert_rows [] t = Inr t"
| "insert_rows ((k, v) # rows) t =
     (case insert_row k v t of
        Inl e \<Rightarrow> Inl e
      | Inr t' \<Rightarrow> insert_rows rows t')"

fun decode_rows :: "(arg list \<Rightarrow> 'r option) \<Rightarrow> arg list list \<Rightarrow> error + 'r list" where
  "decode_rows f [] = Inr []"
| "decode_rows f (r # rs) =
     (case f r of
        None \<Rightarrow> Inl (Backend ''a parameter does not fit the type of its column'')
      | Some x \<Rightarrow> (case decode_rows f rs of Inl e \<Rightarrow> Inl e | Inr xs \<Rightarrow> Inr (x # xs)))"

section \<open>App state mutation MACs\<close>

record AppStateMutationMAC =
  IndexMAC :: bytes
  ValueMAC :: bytes

fun mac_row :: "arg list \<Rightarrow> ((string \<times> string \<times> 64 word \<times> bytes) \<times> bytes) option" where
  "mac_row [AString jid, AString name, AUint64 v, ABytes index_mac, ABytes value_mac] =
     Some ((jid, name, v, index_mac), value_mac)"
| "mac_row r = None"

text \<open>
  \<^verbatim>\<open>putAppStateMutationMACsQuery\<close> followed by the joined placeholder groups:
  \<^verbatim>\<open>INSERT INTO whatsmeow_app_state_mutation_macs (jid, name, version, index_mac,
  value_mac) VALUES (...),(...)\<close>. The table has \<^verbatim>\<open>CHECK ( length(index_mac) = 32 )\<close>
  and \<^verbatim>\<open>CHECK ( length(value_mac) = 32 )\<close> for the dialects other than
  \<^verbatim>\<open>mysql\<close>, and a foreign key \<^verbatim>\<open>(jid, name)\<close> to
  \<^verbatim>\<open>whatsmeow_app_state_version\<close> for all of them.
\<close>

definition mac_row_allowed ::
  "string \<Rightarrow> tables \<Rightarrow> (string \<times> string \<times> 64 word \<times> bytes) \<times> bytes \<Rightarrow> bool" where
  "mac_row_allowed d t row =
     (case row of
        ((jid, name, v, index_mac), value_mac) \<Rightarrow>
          (if schema_checks d then length index_mac = 32 \<and> length value_mac = 32 else True) \<and>
          map_of (whatsmeow_app_state_version t) (jid, name) \<noteq> None)"

definition putAppStateMutationMACsQuery ::
  "string \<Rightarrow> placeholder_group list \<Rightarrow> arg list \<Rightarrow> tables \<Rightarrow> error + tables" where
  "putAppStateMutationMACsQuery d groups args t =
     (case bind_values groups args of
        Inl e \<Rightarrow> Inl e
      | Inr bound \<Rightarrow>
          (case decode_rows mac_row bound of
             Inl e \<Rightarrow> Inl e
           | Inr rows \<Rightarrow>
               guarded (list_all (mac_row_allowed d t) rows)
                 ''check or foreign key constraint violated''
                 (case insert_rows rows (whatsmeow_app_state_mutation_macs t) of
                    Inl e \<Rightarrow> Inl e
                  | Inr t' \<Rightarrow> Inr (t\<lparr>whatsmeow_app_state_mutation_macs := t'\<rparr>))))"

text \<open>The MySQL branch: one \<^verbatim>\<open>INSERT\<close> per mutation, stopping at the first error.\<close>

fun mysql_mac_inserts ::
  "store \<Rightarrow> string \<Rightarrow> 64 word \<Rightarrow> AppStateMutationMAC list \<Rightarrow> world \<Rightarrow> error option \<times> world" where
  "mysql_mac_inserts s name v [] w = (None, w)"
| "mysql_mac_inserts s name v (mutation # mutations) w =
     (case Exec (putAppStateMutationMACsQuery (dialect s) [QuestionMarks 5]
                   [AString (JID s), AString name, AUint64 v,
                    ABytes (IndexMAC mutation), ABytes (ValueMAC mutation)]) w of
        (Some err, w') \<Rightarrow> (Some err, w')
      | (None, w') \<Rightarrow> mysql_mac_inserts s name v mutations w')"

text \<open>
  The loop of the SQLite branch, which appends five arguments and the group
  \<^verbatim>\<open>(?, ?, ?, ?, ?)\<close> per mutation.
\<close>

fun sqlite_mac_args ::
  "store \<Rightarrow> string \<Rightarrow> 64 word \<Rightarrow> AppStateMutationMAC list \<Rightarrow> arg list
     \<Rightarrow> placeholder_group list \<Rightarrow> arg list \<times> placeholder_group list" where
  "sqlite_mac_args s name v [] args placeholders = (args, placeholders)"
| "sqlite_mac_args s name v (mutation # mutations) args placeholders =
     sqlite_mac_args s name v mutations
       (args @ [AString (JID s), AString name, AUint64 v,
                ABytes (IndexMAC mutation), ABytes (ValueMAC mutation)])
       (placeholders @ [QuestionMarks 5])"

text \<open>
  The loop of the last branch: \<^verbatim>\<open>argsCount\<close> starts at 1 and grows by 2, and the group
  of a mutation is \<^verbatim>\<open>($1, $2, $3, $%d, $%d)\<close> with \<^verbatim>\<open>baseIndex+1\<close> and
  \<^verbatim>\<open>baseIndex+2\<close>.
\<close>

fun postgres_mac_args ::
  "AppStateMutationMAC list \<Rightarrow> nat \<Rightarrow> arg list \<Rightarrow> placeholder_group list
     \<Rightarrow> arg list \<times> placeholder_group list" where
  "postgres_mac_args [] argsCount args placeholders = (args, placeholders)"
| "postgres_mac_args (mutation # mutations) argsCount args placeholders =
     (let baseIndex = argsCount
      in postgres_mac_args mutations (argsCount + 2)
           (args @ [ABytes (IndexMAC mutation), ABytes (ValueMAC mutation)])
           (placeholders @ [Dollars [1, 2, 3, baseIndex + 1, baseIndex + 2]]))"

definition putAppStateMutationMACs ::
  "store \<Rightarrow> string \<Rightarrow> 64 word \<Rightarrow> AppStateMutationMAC list \<Rightarrow> world \<Rightarrow> error option \<times> world" where
  "putAppStateMutationMACs s name v mutations w =
     (if dialect s = ''mysql'' then mysql_mac_inserts s name v mutations w
      else if dialect s = ''sqlite3'' then
        (case sqlite_mac_args s name v mutations [] [] of
           (args, placeholders) \<Rightarrow>
             Exec (putAppStateMutationMACsQuery (dialect s) placeholders args) w)
      else
        (case postgres_mac_args mutations 1 [AString (JID s), AString name, AUint64 v] [] of
           (args, placeholders) \<Rightarrow>
             Exec (putAppStateMutationMACsQuery (dialect s) placeholders args) w))"

definition mutationBatchSize :: nat where
  "mutationBatchSize = 400"

text \<open>
  The chunk loop of \<^verbatim>\<open>PutAppStateMutationMACs\<close> inside the transaction \<open>tx\<close>:
  \<^verbatim>\<open>for i := 0; i < len(mutations); i += mutationBatchSize\<close>.
\<close>

function mutation_chunks ::
  "store \<Rightarrow> string \<Rightarrow> 64 word \<Rightarrow> AppStateMutationMAC list \<Rightarrow> tables \<Rightarrow> nat \<Rightarrow> world
     \<Rightarrow> error option \<times> world" where
  "mutation_chunks s name v mutations tx i w =
     (if i < length mutations then
        (let mutationSlice =
               (if length mutations > i + mutationBatchSize
                then take mutationBatchSize (drop i mutations)
                else drop i mutations)
         in case putAppStateMutationMACs s name v mutationSlice w of
              (Some err, w') \<Rightarrow> (Some err, Rollback tx w')
            | (None, w') \<Rightarrow> mutation_chunks s name v mutations tx (i + mutationBatchSize) w')
      else (None, w))"
  by pat_completeness auto
termination
  by (relation "measure (\<lambda>(s, name, v, mutations, tx, i, w). length mutations - i)")
     (auto simp: mutationBatchSize_def)

definition PutAppStateMutationMACs ::
  "store \<Rightarrow> string \<Rightarrow> 64 word \<Rightarrow> AppStateMutationMAC list \<Rightarrow> world \<Rightarrow> error option \<times> world" where
  "PutAppStateMutationMACs s name v mutations w =
     (if length mutations > mutationBatchSize then
        (case Begin w of
           (Inl err, w1) \<Rightarrow> (Some (Wrap ''failed to start transaction: '' err), w1)
         | (Inr tx, w1) \<Rightarrow>
             (case mutation_chunks s name v mutations tx 0 w1 of
                (Some err, w2) \<Rightarrow> (Some err, w2)
              | (None, w2) \<Rightarrow>
                  (case Commit tx w2 of
                     (Some err, w3) \<Rightarrow> (Some (Wrap ''failed to commit transaction: '' err), w3)
                   | (None, w3) \<Rightarrow> (None, w3))))
      else if length mutations > 0 then putAppStateMutationMACs s name v mutations w
      else (None, w))"

section \<open>Contacts\<close>

record 'j ContactEntry =
  EntryJID :: 'j
  FirstName :: string
  FullName :: string

fun contact_name_row :: "arg list \<Rightarrow> ((string \<times> string) \<times> contact_row) option" where
  "contact_name_row [AString our_jid, AString their_jid, AString first, AString full] =
     Some ((our_jid, their_jid),
           \<lparr> first_name = Some first, full_name = Some full, push_name = None,
             business_name = None \<rparr>)"
| "contact_name_row r = None"

text \<open>
  \<^verbatim>\<open>putManyContactNamesQuery\<close> with the joined placeholder groups in place of
  \<^verbatim>\<open>%s\<close>: the insert of \<^verbatim>\<open>(our_jid, their_jid, first_name, full_name)\<close> with
  \<^verbatim>\<open>ON CONFLICT (our_jid, their_jid) DO UPDATE SET first_name=excluded.first_name,
  full_name=excluded.full_name\<close>, the rows taken in their order.
\<close>

definition putManyContactNamesQuery ::
  "placeholder_group list \<Rightarrow> arg list \<Rightarrow> tables \<Rightarrow> error + tables" where
  "putManyContactNamesQuery groups args t =
     (case bind_values groups args of
        Inl e \<Rightarrow> Inl e
      | Inr bound \<Rightarrow>
          (case decode_rows contact_name_row bound of
             Inl e \<Rightarrow> Inl e
           | Inr rows \<Rightarrow>
               guarded (\<not> list_ex (\<lambda>(k, r). device_row_missing (fst k) k (whatsmeow_contacts t) t)
                              rows)
                 ''foreign key constraint fails''
                 (Inr (t\<lparr>whatsmeow_contacts :=
                         fold (\<lambda>(k, r). on_conflict_do_update
                                 (\<lambda>old excluded. old\<lparr>first_name := first_name excluded,
                                                       full_name := full_name excluded\<rparr>) k r)
                           rows (whatsmeow_contacts t)\<rparr>))))"

text \<open>
  The loop of \<^verbatim>\<open>putContactNamesBatch\<close>: entries with an empty JID and entries whose
  JID was handled before are skipped (with a warning in the log).
\<close>

fun contact_values ::
  "'j jid_ops \<Rightarrow> store \<Rightarrow> 'j ContactEntry list \<Rightarrow> arg list \<Rightarrow> placeholder_group list \<Rightarrow> nat
     \<Rightarrow> 'j list \<Rightarrow> arg list \<times> placeholder_group list" where
  "contact_values J s [] values queryParts i handledContacts = (values, queryParts)"
| "contact_values J s (contact # contacts) values queryParts i handledContacts =
     (if IsEmpty J (EntryJID contact)
      then contact_values J s contacts values queryParts i handledContacts
      else if EntryJID contact \<in> set handledContacts
      then contact_values J s contacts values queryParts i handledContacts
      else
        (let baseIndex = i * 3 + 1
         in contact_values J s contacts
              (values @ [AString (String J (EntryJID contact)), AString (FirstName contact),
                         AString (FullName contact)])
              (queryParts @
                 [if dialect s = ''sqlite3'' \<or> dialect s = ''mysql'' then QuestionMarks 4
                  else Dollars [1, baseIndex + 1, baseIndex + 2, baseIndex + 3]])
              (i + 1) (EntryJID contact # handledContacts)))"

definition putContactNamesBatch ::
  "'j jid_ops \<Rightarrow> store \<Rightarrow> 'j ContactEntry list \<Rightarrow> world \<Rightarrow> error option \<times> world" where
  "putContactNamesBatch J s contacts w =
     (case contact_values J s contacts [AString (JID s)] [] 0 [] of
        (values, queryParts) \<Rightarrow> Exec (putManyContactNamesQuery queryParts values) w)"

definition contactBatchSize :: nat where
  "contactBatchSize = 300"

function contact_chunks ::
  "'j jid_ops \<Rightarrow> store \<Rightarrow> 'j ContactEntry list \<Rightarrow> tables \<Rightarrow> nat \<Rightarrow> world \<Rightarrow> error option \<times> world" where
  "contact_chunks J s contacts tx i w =
     (if i < length contacts then
        (let contactSlice =
               (if length contacts > i + contactBatchSize
                then take contactBatchSize (drop i contacts)
                else drop i contacts)
         in case putContactNamesBatch J s contactSlice w of
              (Some err, w') \<Rightarrow> (Some err, Rollback tx w')
            | (None, w') \<Rightarrow> contact_chunks J s contacts tx (i + contactBatchSize) w')
      else (None, w))"
  by pat_completeness auto
termination
  by (relation "measure (\<lambda>(J, s, contacts, tx, i, w). length contacts - i)")
     (auto simp: contactBatchSize_def)

definition clear_contactCache :: "world \<Rightarrow> world" where
  "clear_contactCache w = w\<lparr>contactCache := []\<rparr>"

definition PutAllContactNames ::
  "'j jid_ops \<Rightarrow> store \<Rightarrow> 'j ContactEntry list \<Rightarrow> world \<Rightarrow> error option \<times> world" where
  "PutAllContactNames J s contacts w =
     (if length contacts > contactBatchSize then
        (case Begin w of
           (Inl err, w1) \<Rightarrow> (Some (Wrap ''failed to start transaction: '' err), w1)
         | (Inr tx, w1) \<Rightarrow>
             (case contact_chunks J s contacts tx 0 w1 of
                (Some err, w2) \<Rightarrow> (Some err, w2)
              | (None, w2) \<Rightarrow>
                  (case Commit tx w2 of
                     (Some err, w3) \<Rightarrow> (Some (Wrap ''failed to commit transaction: '' err), w3)
                   | (None, w3) \<Rightarrow> (None, clear_contactCache w3))))
      else if length contacts > 0 then
        (case putContactNamesBatch J s contacts w of
           (Some err, w1) \<Rightarrow> (Some err, w1)
         | (None, w1) \<Rightarrow> (None, clear_contactCache w1))
      else (None, w))"

section \<open>Batches of message secrets\<close>

record 'j MessageSecretInsert =
  Chat :: 'j
  Sender :: 'j
  ID :: string
  Secret :: bytes

text \<open>
  The loop of \<^verbatim>\<open>putMessageSecretsInternal\<close> inside the transaction \<open>tx\<close>; \<open>query\<close>
  is the statement chosen for the dialect, its text sent to the engine.
\<close>

fun secret_inserts ::
  "'j jid_ops \<Rightarrow> store
     \<Rightarrow> (string \<Rightarrow> string \<Rightarrow> string \<Rightarrow> string \<Rightarrow> bytes \<Rightarrow> tables \<Rightarrow> error + tables)
     \<Rightarrow> tables \<Rightarrow> 'j MessageSecretInsert list \<Rightarrow> world \<Rightarrow> error option \<times> world" where
  "secret_inserts J s query tx [] w = (None, w)"
| "secret_inserts J s query tx (insert' # inserts) w =
     (case Exec (query (JID s) (String J (ToNonAD J (Chat insert')))
                   (String J (ToNonAD J (Sender insert'))) (ID insert') (Secret insert')) w of
        (Some err, w') \<Rightarrow> (Some (Wrap ''failed to insert message secret: '' err), Rollback tx w')
      | (None, w') \<Rightarrow> secret_inserts J s query tx inserts w')"

definition putMessageSecretsInternal ::
  "'j jid_ops \<Rightarrow> store \<Rightarrow> 'j MessageSecretInsert list \<Rightarrow> world \<Rightarrow> error option \<times> world" where
  "putMessageSecretsInternal J s inserts w =
     (case Begin w of
        (Inl err, w1) \<Rightarrow> (Some (Wrap ''failed to begin transaction: '' err), w1)
      | (Inr tx, w1) \<Rightarrow>
          (let query = (if dialect s = ''mysql'' then putMsgSecretMySQL_text 4
                        else dialectQuery s putMsgSecret_text);
               rows = (if dialect s = ''mysql'' then putMsgSecretMySQL else putMsgSecret)
           in case secret_inserts J s
                     (\<lambda>our_jid chat_jid sender_jid message_id secret.
                        parsed (dialect s) query
                          (rows our_jid chat_jid sender_jid message_id secret))
                     tx inserts w1 of
                (Some err, w2) \<Rightarrow> (Some err, w2)
              | (None, w2) \<Rightarrow>
                  (case Commit tx w2 of
                     (Some err, w3) \<Rightarrow> (Some (Wrap ''failed to commit transaction: '' err), w3)
                   | (None, w3) \<Rightarrow> (None, w3))))"

definition maxRetries :: nat where
  "maxRetries = 3"

text \<open>
  The loop of \<^verbatim>\<open>putMessageSecretsWithRetry\<close>,
  \<^verbatim>\<open>for attempt := 0; attempt < maxRetries; attempt++\<close>. An attempt that fails is
  followed by a sleep of \<^verbatim>\<open>100 * (attempt + 1)\<close> milliseconds unless the test
  \<^verbatim>\<open>err == nil || (s.dialect == "mysql" && !strings.Contains(err.Error(), "Lock wait
  timeout exceeded"))\<close> returns the error at once.
\<close>

function retry_attempts ::
  "'j jid_ops \<Rightarrow> store \<Rightarrow> 'j MessageSecretInsert list \<Rightarrow> nat \<Rightarrow> world \<Rightarrow> error option \<times> world" where
  "retry_attempts J s inserts attempt w =
     (if attempt < maxRetries then
        (case putMessageSecretsInternal J s inserts w of
           (None, w') \<Rightarrow> (None, w')
         | (Some err, w') \<Rightarrow>
             if dialect s = ''mysql'' \<and>
                \<not> strings_Contains (Error err) ''Lock wait timeout exceeded''
             then (Some err, w')
             else retry_attempts J s inserts (attempt + 1)
                    (time_Sleep (100 * (attempt + 1)) w'))
      else (Some (Errorf (''failed to store message secrets after '' @ itoa maxRetries @
                          '' retry attempts'')), w))"
  by pat_completeness auto
termination
  by (relation "measure (\<lambda>(J, s, inserts, attempt, w). maxRetries - attempt)") auto

definition putMessageSecretsWithRetry ::
  "'j jid_ops \<Rightarrow> store \<Rightarrow> 'j MessageSecretInsert list \<Rightarrow> world \<Rightarrow> error option \<times> world" where
  "putMessageSecretsWithRetry J s inserts w = retry_attempts J s inserts 0 w"

definition msgSecretBatchSize :: nat where
  "msgSecretBatchSize = 50"

function secret_chunks ::
  "'j jid_ops \<Rightarrow> store \<Rightarrow> 'j MessageSecretInsert list \<Rightarrow> nat \<Rightarrow> world \<Rightarrow> error option \<times> world" where
  "secret_chunks J s inserts i w =
     (if i < length inserts then
        (let end' = (if i + msgSecretBatchSize > length inserts then length inserts
                    else i + msgSecretBatchSize)
         in case putMessageSecretsWithRetry J s (take (end' - i) (drop i inserts)) w of
              (Some batchErr, w') \<Rightarrow> (Some batchErr, w')
            | (None, w') \<Rightarrow> secret_chunks J s inserts (i + msgSecretBatchSize) w')
      else (None, w))"
  by pat_completeness auto
termination
  by (relation "measure (\<lambda>(J, s, inserts, i, w). length inserts - i)")
     (auto simp: msgSecretBatchSize_def)

definition PutMessageSecrets ::
  "'j jid_ops \<Rightarrow> store \<Rightarrow> 'j MessageSecretInsert list \<Rightarrow> world \<Rightarrow> error option \<times> world" where
  "PutMessageSecrets J s inserts w =
     (if length inserts > msgSecretBatchSize then secret_chunks J s inserts 0 w
      else putMessageSecretsWithRetry J s inserts w)"

section \<open>Chunks, as the specification describes them\<close>

text \<open>
  Consecutive chunks of at most \<open>n\<close> elements, and a writer applied to the chunks in
  their order until one fails.
\<close>

function chunks :: "nat \<Rightarrow> 'a list \<Rightarrow> 'a list list" where
  "chunks n xs = (if n = 0 \<or> xs = [] then [] else take n xs # chunks n (drop n xs))"
  by pat_completeness auto
termination
  by (relation "measure (\<lambda>(n, xs). length xs)") auto

fun each_chunk ::
  "('a list \<Rightarrow> world \<Rightarrow> error option \<times> world) \<Rightarrow> 'a list list \<Rightarrow> world \<Rightarrow> error option \<times> world" where
  "each_chunk f [] w = (None, w)"
| "each_chunk f (c # cs) w =
     (case f c w of
        (Some e, w') \<Rightarrow> (Some e, w')
      | (None, w') \<Rightarrow> each_chunk f cs w')"

text \<open>
  A body run in one transaction, as \<^verbatim>\<open>PutAppStateMutationMACs\<close> and
  \<^verbatim>\<open>PutAllContactNames\<close> run their chunks: a failure of the body or of the commit
  rolls everything back.
\<close>

definition atomically :: "(world \<Rightarrow> error option \<times> world) \<Rightarrow> world \<Rightarrow> error option \<times> world" where
  "atomically body w =
     (case Begin w of
        (Inl err, w1) \<Rightarrow> (Some (Wrap ''failed to start transaction: '' err), w1)
      | (Inr tx, w1) \<Rightarrow>
          (case body w1 of
             (Some err, w2) \<Rightarrow> (Some err, Rollback tx w2)
           | (None, w2) \<Rightarrow>
               (case Commit tx w2 of
                  (Some err, w3) \<Rightarrow> (Some (Wrap ''failed to commit transaction: '' err), w3)
                | (None, w3) \<Rightarrow> (None, w3))))"

section \<open>Concrete worlds\<close>

text \<open>
  A fresh account (its device row and nothing else) on a database whose driver never
  fails.
\<close>

definition world0 :: world where
  "world0 = \<lparr> db = \<lparr> whatsmeow_device = [''111:1@s.whatsapp.net''],
                    whatsmeow_identity_keys = [], whatsmeow_pre_keys = [], whatsmeow_app_state_sync_keys = [],
                    whatsmeow_app_state_version = [], whatsmeow_app_state_mutation_macs = [], whatsmeow_contacts = [],
                    whatsmeow_chat_settings = [], whatsmeow_message_secrets = [] \<rparr>,
              faults = [], slept = [], rng = (\<lambda>n. replicate 32 (of_nat n)), drawn = 0,
              contactCache = [] \<rparr>"

definition store_of :: "string \<Rightarrow> store" where
  "store_of d = \<lparr> dialect = d, JID = ''111:1@s.whatsapp.net'' \<rparr>"

definition plain_jid :: "string jid_ops" where
  "plain_jid = \<lparr> String = (\<lambda>j. j), IsEmpty = (\<lambda>j. j = []), ToNonAD = (\<lambda>j. j) \<rparr>"

text \<open>Fifty-one message secrets of one chat, and a world whose next driver call fails.\<close>

definition secrets51 :: "string MessageSecretInsert list" where
  "secrets51 =
     map (\<lambda>i. \<lparr> Chat = ''c@g.us'', Sender = ''s@s.whatsapp.net'', ID = itoa i, Secret = [1] \<rparr>)
       [0..<51]"

definition world_down :: world where
  "world_down = world0\<lparr>faults := [Some ''server has gone away'']\<rparr>"

section \<open>Properties\<close>

subsection \<open>Helper facts\<close>

lemma backend_call_ok:
  "fst (backend_call w) = None \<Longrightarrow> query_row t k w =
     (case map_of t k of None \<Rightarrow> (Inl ErrNoRows, snd (backend_call w))
      | Some v \<Rightarrow> (Inr v, snd (backend_call w)))"
  by (cases "backend_call w") (auto simp: query_row_def split: option.splits)

lemma guarded_Inr [simp]: "guarded ok m r = Inr x \<longleftrightarrow> ok \<and> r = Inr x"
  by (simp add: guarded_def)

lemma parsed_Inr [simp]:
  "parsed d query stmt t = Inr x \<longleftrightarrow> engine_parses d query \<and> stmt t = Inr x"
  by (simp add: parsed_def)

lemma db_backend_call [simp]: "db (snd (backend_call w)) = db w"
  by (simp add: backend_call_def split: list.splits)

lemma Exec_ok:
  "Exec stmt w = (None, w') \<Longrightarrow> stmt (db w) = Inr (db w')"
  by (cases "backend_call w")
     (auto simp: Exec_def backend_call_def split: option.splits sum.splits list.splits)

lemma Exec_err:
  "Exec stmt w = (Some e, w') \<Longrightarrow> db w' = db w"
  by (cases "backend_call w")
     (auto simp: Exec_def backend_call_def split: option.splits sum.splits list.splits)

lemma map_of_on_conflict_do_nothing:
  "map_of (on_conflict_do_nothing k v t) k' =
     (if k' = k \<and> map_of t k = None then Some v else map_of t k')"
  by (auto simp: on_conflict_do_nothing_def map_add_def split: option.splits)

lemma map_of_on_conflict_do_update:
  "map_of (on_conflict_do_update f k v t) k' =
     (if k' = k then Some (case map_of t k of None \<Rightarrow> v | Some old \<Rightarrow> f old v)
      else map_of t k')"
  by (auto simp: on_conflict_do_update_def update_conv' map_add_def split: option.splits)

lemma on_conflict_keep [simp]: "on_conflict_do_update (\<lambda>old excluded. old) k v t = on_conflict_do_nothing k v t"
  by (auto simp: on_conflict_do_update_def on_conflict_do_nothing_def update_triv split: option.splits)

declare put_secret_attempts.simps [simp del]

lemma put_secret_attempts_ok:
  "put_secret_attempts J s chat sender id' secret attempt err w = (None, w') \<Longrightarrow>
   attempt < 3 \<or> err \<noteq> None \<Longrightarrow>
   putMsgSecret (JID s) (String J (ToNonAD J chat)) (String J (ToNonAD J sender)) id' secret (db w)
     = Inr (db w')"
proof (induction J s chat sender id' secret attempt err w rule: put_secret_attempts.induct)
  case (1 J s chat sender id' secret attempt err w)
  let ?stmt = "parsed (dialect s) (putMsgSecretMySQL_text 5)
                 (putMsgSecretMySQL (JID s) (String J (ToNonAD J chat))
                    (String J (ToNonAD J sender)) id' secret)"
  show ?case
  proof (cases "attempt < 3")
    case False
    with "1.prems" show ?thesis by (simp add: put_secret_attempts.simps)
  next
    case True
    obtain r w1 where ex: "Exec ?stmt w = (r, w1)"
      by (cases "Exec ?stmt w") auto
    have same: "putMsgSecretMySQL = putMsgSecret"
      by (intro ext) (simp add: putMsgSecretMySQL_def putMsgSecret_def)
    show ?thesis
    proof (cases r)
      case None
      with ex "1.prems" True have "w1 = w'"
        by (simp add: put_secret_attempts.simps)
      with ex None have "?stmt (db w) = Inr (db w')" using Exec_ok by metis
      then show ?thesis by (simp add: same)
    next
      case (Some e)
      show ?thesis
      proof (cases "strings_Contains (Error e) ''Lock wait timeout exceeded''")
        case False
        with ex Some True "1.prems" show ?thesis
          by (simp add: put_secret_attempts.simps)
      next
        case c: True
        from ex Some have dbw1: "db w1 = db w" by (simp add: Exec_err)
        from ex Some True c "1.prems"
        have rec: "put_secret_attempts J s chat sender id' secret (attempt + 1) (Some e)
                    (time_Sleep (50 * (attempt + 1)) w1) = (None, w')"
          by (simp add: put_secret_attempts.simps)
        have "putMsgSecret (JID s) (String J (ToNonAD J chat)) (String J (ToNonAD J sender)) id' secret
                (db (time_Sleep (50 * (attempt + 1)) w1)) = Inr (db w')"
          using "1.IH" [OF True ex [symmetric] Some _ rec] c by simp
        then show ?thesis by (simp add: time_Sleep_def dbw1)
      qed
    qed
  qed
qed

lemma PutMessageSecret_ok:
  "PutMessageSecret J s chat sender id' secret w = (None, w') \<Longrightarrow>
   putMsgSecret (JID s) (String J (ToNonAD J chat)) (String J (ToNonAD J sender)) id' secret (db w)
     = Inr (db w')"
  by (auto simp: PutMessageSecret_def dest: put_secret_attempts_ok dest!: Exec_ok split: if_splits)

lemma is_postgres_tags [simp]:
  "is_postgres ''postgres''" "\<not> is_postgres ''mysql''" "\<not> is_postgres ''sqlite3''"
  by code_simp+

lemma sql_MAX_Nil [simp]: "sql_MAX [] = None"
  by (simp add: sql_MAX_def)

lemma sql_MAX_None [simp]: "sql_MAX xs = None \<longleftrightarrow> xs = []"
  by (simp add: sql_MAX_def split: list.splits)

lemma sql_MAX_Some: "sql_MAX xs = Some m \<Longrightarrow> m \<in> set xs \<and> (\<forall>x \<in> set xs. x \<le> m)"
proof -
  assume a: "sql_MAX xs = Some m"
  then obtain y ys where xs: "xs = y # ys" and m: "m = fold max ys y"
    by (auto simp: sql_MAX_def split: list.splits)
  have "m = Max (set xs)" unfolding xs m by (rule Max.set_eq_fold [symmetric])
  moreover have "finite (set xs)" "set xs \<noteq> {}" using xs by auto
  ultimately show ?thesis using Max_in Max_ge by blast
qed

lemma key_ids_append:
  "key_ids jid (t\<lparr>whatsmeow_pre_keys := whatsmeow_pre_keys t @ [((jid, n), r)]\<rparr>) = key_ids jid t @ [n]"
  by (simp add: key_ids_def)

lemma GenOnePreKey_ok:
  assumes "GenOnePreKey s w = ((Some k, None), w')"
  shows "(case sql_MAX (key_ids (JID s) (db w)) of None \<Rightarrow> True | Some m \<Rightarrow> m < 2 ^ 31)"
    and "KeyID k = (case sql_MAX (key_ids (JID s) (db w)) of None \<Rightarrow> 0 | Some m \<Rightarrow> of_nat m) + 1"
    and "db w' = (db w)\<lparr>whatsmeow_pre_keys := whatsmeow_pre_keys (db w) @
            [((JID s, unat (KeyID k)), \<lparr> key_col = Priv k, uploaded_col = True \<rparr>)]\<rparr>"
proof -
  obtain r w1 where q: "getNextPreKeyID s w = (r, w1)" by (cases "getNextPreKeyID s w") auto
  with assms obtain nxt where r: "r = Inr nxt" 
    by (cases r) (auto simp: GenOnePreKey_def)
  from q r have dbw1: "db w1 = db w"
    by (auto simp: getNextPreKeyID_def getLastPreKeyIDQuery_def backend_call_def
        split: prod.splits sum.splits option.splits list.splits)
  from q r have scan: "scan_NullInt32 (sql_MAX (key_ids (JID s) (db w))) = Inr (nxt - 1)"
    by (auto simp: getNextPreKeyID_def getLastPreKeyIDQuery_def backend_call_def
        split: prod.splits sum.splits option.splits list.splits)
  from scan show "(case sql_MAX (key_ids (JID s) (db w)) of None \<Rightarrow> True | Some m \<Rightarrow> m < 2 ^ 31)"
    by (auto simp: scan_NullInt32_def split: option.splits if_splits)
  from assms q r have g: "genOnePreKey s nxt True w1 = ((k, None), w')"
    by (auto simp: GenOnePreKey_def split: prod.splits)
  then have kid: "KeyID k = nxt"
    by (auto simp: genOnePreKey_def NewPreKey_def Let_def split: prod.splits)
  from scan kid show "KeyID k = (case sql_MAX (key_ids (JID s) (db w)) of None \<Rightarrow> 0 | Some m \<Rightarrow> of_nat m) + 1"
    by (auto simp: scan_NullInt32_def split: option.splits if_splits)
  from g obtain w2 q where
    ex: "Exec (parsed (dialect s) q (insertPreKeyQuery (dialect s) (JID s) (KeyID k) (Priv k) True))
           w2 = (None, w')"
    and dbw2: "db w2 = db w1"
    by (auto simp: genOnePreKey_def NewPreKey_def Let_def split: prod.splits if_splits)
  from Exec_ok [OF ex] show "db w' = (db w)\<lparr>whatsmeow_pre_keys := whatsmeow_pre_keys (db w) @
            [((JID s, unat (KeyID k)), \<lparr> key_col = Priv k, uploaded_col = True \<rparr>)]\<rparr>"
    by (auto simp: insertPreKeyQuery_def insert_row_def dbw2 dbw1 split: option.splits sum.splits)
qed


lemma PutAppStateSyncKey_ok:
  assumes "dialect s \<noteq> ''mysql''" and "PutAppStateSyncKey s i k w = (None, w')"
  shows "map_of (whatsmeow_app_state_sync_keys (db w')) (JID s, i) =
     Some (case map_of (whatsmeow_app_state_sync_keys (db w)) (JID s, i) of
             None \<Rightarrow> sync_key_args k
           | Some old \<Rightarrow> if sint (timestamp old) < sint (Timestamp k) then sync_key_args k else old)"
proof -
  from assms have "Exec (putAppStateSyncKeyQuery (JID s) i (sync_key_args k)) w = (None, w')"
    by (simp add: PutAppStateSyncKey_def)
  from Exec_ok [OF this]
  have "whatsmeow_app_state_sync_keys (db w') =
          on_conflict_do_update
            (\<lambda>old excluded. if sint (timestamp old) < sint (timestamp excluded) then excluded else old)
            (JID s, i) (sync_key_args k) (whatsmeow_app_state_sync_keys (db w))"
    by (auto simp: putAppStateSyncKeyQuery_def dest: arg_cong [where f = whatsmeow_app_state_sync_keys])
  then show ?thesis
    by (simp add: map_of_on_conflict_do_update sync_key_args_def split: option.splits)
qed

lemma PutAppStateSyncKey_monotonic_other_dialects:
  assumes "dialect s \<noteq> ''mysql''"
    and "map_of (whatsmeow_app_state_sync_keys (db w)) (JID s, i) = None"
    and "PutAppStateSyncKey s i k w = (None, w1)"
    and "PutAppStateSyncKey s i k' w1 = (None, w2)"
  shows "map_of (whatsmeow_app_state_sync_keys (db w2)) (JID s, i) =
     Some (if sint (Timestamp k) < sint (Timestamp k') then sync_key_args k' else sync_key_args k)"
  using PutAppStateSyncKey_ok [OF assms(1,3)] PutAppStateSyncKey_ok [OF assms(1,4)] assms(2)
  by (simp add: sync_key_args_def)

lemmas GenOnePreKey_eval =
  GenOnePreKey_def getNextPreKeyID_def getLastPreKeyIDQuery_def
  backend_call_def world0_def store_of_def key_ids_def sql_MAX_def scan_NullInt32_def
  genOnePreKey_def NewPreKey_def Exec_def insertPreKeyQuery_def parsed_def engine_parses_def
  guarded_def schema_checks_def insert_row_def


subsection \<open>Facts about the dialect layer\<close>

declare ReplaceAll.simps [simp del]
declare itoa.simps [simp del]

lemma ReplaceAll_Nil [simp]: "old \<noteq> [] \<Longrightarrow> ReplaceAll [] old new = []"
  by (simp add: ReplaceAll.simps)

lemma ReplaceAll_Cons:
  "old \<noteq> [] \<Longrightarrow> ReplaceAll (c # cs) old new =
     (if prefix old (c # cs) then new @ ReplaceAll (drop (length old) (c # cs)) old new
      else c # ReplaceAll cs old new)"
  by (subst ReplaceAll.simps) simp

lemma ReplaceAll_absent:
  "old \<noteq> [] \<Longrightarrow> \<not> sublist old r \<Longrightarrow> ReplaceAll r old new = r"
  by (induction r) (auto simp: ReplaceAll_Cons sublist_Cons_right)

lemma subst_markers_empty [simp]: "subst_markers {} q = q"
  by (induction "{} :: char set" q rule: subst_markers.induct) auto

lemma subst_markers_hd:
  "subst_markers D (x # xs) = y # ys \<Longrightarrow> y = x \<or> y = CHR ''?''"
  by (cases xs) (auto split: if_splits)

lemma subst_markers_other:
  "c \<noteq> CHR ''$'' \<Longrightarrow> subst_markers D (c # cs) = c # subst_markers D cs"
  by (cases cs) auto

lemma subst_markers_not_prefix:
  "e \<noteq> d \<Longrightarrow> d \<noteq> CHR ''?'' \<Longrightarrow> \<not> prefix (d # p) (subst_markers D (e # cs))"
  by (cases cs) (auto split: if_splits)

lemma subst_markers_step:
  assumes d: "d \<noteq> CHR ''?''" "d \<noteq> CHR ''$''"
  shows "d \<notin> D \<Longrightarrow> ReplaceAll (subst_markers D q) [CHR ''$'', d] ''?'' = subst_markers (insert d D) q"
proof (induction D q rule: subst_markers.induct)
  case (1 D)
  show ?case by simp
next
  case (2 D c)
  show ?case by (simp add: ReplaceAll_Cons)
next
  case (3 D c e cs)
  show ?case
  proof (cases "c = CHR ''$''")
    case False
    with 3 show ?thesis by (simp add: ReplaceAll_Cons)
  next
    case c: True
    show ?thesis
    proof (cases "e \<in> D")
      case True
      with c 3 show ?thesis by (simp add: ReplaceAll_Cons)
    next
      case e: False
      from 3 c e
      have IH: "ReplaceAll (subst_markers D (e # cs)) [CHR ''$'', d] ''?'' =
                  subst_markers (insert d D) (e # cs)"
        by simp
      show ?thesis
      proof (cases "e = d")
        case True
        with IH d have "ReplaceAll (subst_markers D cs) [CHR ''$'', d] ''?'' =
                          subst_markers (insert d D) cs"
          by (simp add: subst_markers_other ReplaceAll_Cons)
        with True c e d show ?thesis
          by (simp add: subst_markers_other ReplaceAll_Cons)
      next
        case False
        with c e d IH show ?thesis
          by (simp add: ReplaceAll_Cons subst_markers_not_prefix)
      qed
    qed
  qed
qed

lemma subst_markers_clean:
  "d \<in> D \<Longrightarrow> CHR ''?'' \<notin> D \<Longrightarrow> \<not> sublist (CHR ''$'' # d # p) (subst_markers D q)"
proof (induction D q rule: subst_markers.induct)
  case (1 D)
  show ?case by simp
next
  case (2 D c)
  show ?case by (simp add: sublist_Cons_right)
next
  case (3 D c e cs)
  then have neq: "d \<noteq> CHR ''?''" by auto
  show ?case
  proof (cases "c = CHR ''$'' \<and> e \<in> D")
    case True
    with 3 show ?thesis by (simp add: sublist_Cons_right)
  next
    case False
    with 3 have IH: "\<not> sublist (CHR ''$'' # d # p) (subst_markers D (e # cs))" by simp
    have "\<not> prefix (CHR ''$'' # d # p) (c # subst_markers D (e # cs))"
    proof (cases "e = d")
      case True
      with False 3 show ?thesis by auto
    next
      case False
      then show ?thesis using subst_markers_not_prefix [OF False neq] by simp
    qed
    moreover have "subst_markers D (c # e # cs) = c # subst_markers D (e # cs)"
      using False by auto
    ultimately show ?thesis using IH by (simp add: sublist_Cons_right)
  qed
qed

lemma markers_1_20:
  "map (\<lambda>i. CHR ''$'' # itoa i) [1..<21] =
     [''$1'', ''$2'', ''$3'', ''$4'', ''$5'', ''$6'', ''$7'', ''$8'', ''$9'', ''$10'',
      ''$11'', ''$12'', ''$13'', ''$14'', ''$15'', ''$16'', ''$17'', ''$18'', ''$19'', ''$20'']"
  by code_simp


lemma fold_markers:
  "fold (\<lambda>i result. ReplaceAll result (CHR ''$'' # itoa i) ''?'') [1..<21] q =
   fold (\<lambda>m result. ReplaceAll result m ''?'') (map (\<lambda>i. CHR ''$'' # itoa i) [1..<21]) q"
  by (simp add: fold_map comp_def)

lemma single_digit_rounds:
  "fold (\<lambda>m result. ReplaceAll result m ''?'')
     [''$1'', ''$2'', ''$3'', ''$4'', ''$5'', ''$6'', ''$7'', ''$8'', ''$9''] q = subst_markers digits19 q"
proof -
  have first: "ReplaceAll q ''$1'' ''?'' = subst_markers {CHR ''1''} q"
    using subst_markers_step [of "CHR ''1''" "{}" q] by simp
  have set: "digits19 =
     insert CHR ''9'' (insert CHR ''8'' (insert CHR ''7'' (insert CHR ''6'' (insert CHR ''5''
       (insert CHR ''4'' (insert CHR ''3'' (insert CHR ''2'' {CHR ''1''})))))))"
    by (auto simp: digits19_def)
  show ?thesis
    unfolding set by (simp add: first subst_markers_step)
qed

lemma double_digit_rounds:
  "fold (\<lambda>m result. ReplaceAll result m ''?'')
     [''$10'', ''$11'', ''$12'', ''$13'', ''$14'', ''$15'', ''$16'', ''$17'', ''$18'', ''$19'', ''$20'']
     (subst_markers digits19 q) = subst_markers digits19 q"
  by (simp add: ReplaceAll_absent subst_markers_clean digits19_def)

lemma marker_rounds:
  "fold (\<lambda>i result. ReplaceAll result (CHR ''$'' # itoa i) ''?'') [1..<21] q = subst_markers digits19 q"
proof -
  have "fold (\<lambda>m result. ReplaceAll result m ''?'')
          ([''$1'', ''$2'', ''$3'', ''$4'', ''$5'', ''$6'', ''$7'', ''$8'', ''$9''] @
           [''$10'', ''$11'', ''$12'', ''$13'', ''$14'', ''$15'', ''$16'', ''$17'', ''$18'', ''$19'', ''$20'']) q
        = subst_markers digits19 q"
    unfolding fold_append comp_def single_digit_rounds double_digit_rounds ..
  then show ?thesis
    unfolding fold_markers markers_1_20 by simp
qed


lemma itoa_1_9:
  "map itoa [1..<10] = [''1'', ''2'', ''3'', ''4'', ''5'', ''6'', ''7'', ''8'', ''9'']"
  by code_simp

lemma small_markers_iff:
  "small_markers q \<longleftrightarrow> (\<forall>m \<in> set (marker_numbers q). \<exists>d \<in> digits19. m = [d])"
  unfolding small_markers_def itoa_1_9 digits19_def by auto

lemma digits19_is_digit: "d \<in> digits19 \<Longrightarrow> is_digit d"
  by (auto simp: digits19_def is_digit_def)

lemma rewrite_markers_small:
  "small_markers q \<Longrightarrow> rewrite_markers q = subst_markers digits19 q"
proof (induction q rule: rewrite_markers.induct)
  case 1
  show ?case by simp
next
  case (2 c cs)
  show ?case
  proof (cases "c = CHR ''$'' \<and> takeWhile is_digit cs \<noteq> []")
    case True
    with "2.prems" obtain d where d: "d \<in> digits19" and tw: "takeWhile is_digit cs = [d]"
      and rest: "small_markers (dropWhile is_digit cs)"
      by (auto simp: small_markers_iff)
    from tw have cs: "cs = d # dropWhile is_digit cs"
      using takeWhile_dropWhile_id [of is_digit cs] by simp
    have "subst_markers digits19 (c # cs) = CHR ''?'' # subst_markers digits19 (dropWhile is_digit cs)"
      using True d by (subst cs) simp
    moreover have "rewrite_markers (dropWhile is_digit cs) = subst_markers digits19 (dropWhile is_digit cs)"
      using "2.IH"(1) [OF True rest] .
    ultimately show ?thesis using True by simp
  next
    case False
    with "2.prems" have "small_markers cs" by (auto simp: small_markers_iff)
    with "2.IH"(2) [OF False] have IH: "rewrite_markers cs = subst_markers digits19 cs" by simp
    have "subst_markers digits19 (c # cs) = c # subst_markers digits19 cs"
    proof (cases cs)
      case Nil
      then show ?thesis by simp
    next
      case (Cons e es)
      show ?thesis
      proof (cases "c = CHR ''$''")
        case True
        with False Cons have "\<not> is_digit e" by auto
        then have "e \<notin> digits19" using digits19_is_digit by blast
        with Cons show ?thesis by simp
      next
        case False
        then show ?thesis by (simp add: subst_markers_other)
      qed
    qed
    with IH False show ?thesis by auto
  qed
qed

lemma filter_ReplaceAll:
  "old \<noteq> [] \<Longrightarrow> filter P old = [] \<Longrightarrow> filter P new = [] \<Longrightarrow>
   filter P (ReplaceAll r old new) = filter P r"
proof (induction r old new rule: ReplaceAll.induct)
  case (1 s old new)
  show ?case
  proof (cases "s = []")
    case True
    with 1 show ?thesis by simp
  next
    case ne: False
    show ?thesis
    proof (cases "prefix old s")
      case True
      then obtain rest where s: "s = old @ rest" by (auto simp: prefix_def)
      with 1 ne True have "filter P (ReplaceAll rest old new) = filter P rest" by simp
      with 1 ne True s show ?thesis by (subst ReplaceAll.simps) simp
    next
      case False
      with 1 ne have "filter P (ReplaceAll (tl s) old new) = filter P (tl s)" by simp
      with 1 ne False show ?thesis by (subst ReplaceAll.simps) (cases s; simp)
    qed
  qed
qed

lemma marker_chars_ReplaceAll:
  "old \<noteq> [] \<Longrightarrow> marker_chars old = [] \<Longrightarrow> marker_chars new = [] \<Longrightarrow>
   marker_chars (ReplaceAll r old new) = marker_chars r"
  unfolding marker_chars_def by (rule filter_ReplaceAll)

lemma marker_chars_mysql_rewrites: "marker_chars (mysql_rewrites r) = marker_chars r"
  unfolding mysql_rewrites_def Let_def marker_chars_def
  by (simp add: filter_ReplaceAll)

text \<open>
  A template without a back quote is parsed by the engine of every dialect after
  \<open>dialectQuery\<close>: the rewrites add back quotes for \<open>mysql\<close> only. This is the
  case of every statement of the sections above whose model has no step for the parser.
  Of the statements of these sections, the templates \<^verbatim>\<open>insertPreKeyQuery\<close> and
  \<^verbatim>\<open>putMsgSecret\<close> and the literal MySQL statements beside them have back quotes.
\<close>

lemma engine_parses_without_back_quote:
  "CHR 0x60 \<notin> set q \<Longrightarrow> engine_parses (dialect s) (dialectQuery s q)"
  by (auto simp: engine_parses_def dialectQuery_def)

subsection \<open>Facts about chunks, transactions and retries\<close>

declare retry_attempts.simps [simp del] mutation_chunks.simps [simp del]
  contact_chunks.simps [simp del] secret_chunks.simps [simp del] chunks.simps [simp del]

lemma chunks_Nil [simp]: "chunks n [] = []"
  by (simp add: chunks.simps)

lemma chunks_step: "0 < n \<Longrightarrow> xs \<noteq> [] \<Longrightarrow> chunks n xs = take n xs # chunks n (drop n xs)"
  by (subst chunks.simps) simp

lemma concat_chunks: "0 < n \<Longrightarrow> concat (chunks n xs) = xs"
proof (induction n xs rule: chunks.induct)
  case (1 n xs)
  then show ?case by (cases "xs = []") (simp_all add: chunks_step)
qed

lemma chunks_bounded: "0 < n \<Longrightarrow> c \<in> set (chunks n xs) \<Longrightarrow> c \<noteq> [] \<and> length c \<le> n"
proof (induction n xs rule: chunks.induct)
  case (1 n xs)
  then show ?case by (cases "xs = []") (auto simp: chunks_step)
qed

lemma chunks_drop:
  "0 < n \<Longrightarrow> i < length xs \<Longrightarrow>
   chunks n (drop i xs) =
     (if length xs > i + n then take n (drop i xs) else drop i xs) # chunks n (drop (i + n) xs)"
  by (subst chunks_step) (auto simp: add.commute)

lemma mutation_chunks_each:
  "mutation_chunks s name v mutations tx i w =
     (case each_chunk (putAppStateMutationMACs s name v)
             (chunks mutationBatchSize (drop i mutations)) w of
        (Some err, w') \<Rightarrow> (Some err, Rollback tx w')
      | (None, w') \<Rightarrow> (None, w'))"
proof (induction s name v mutations tx i w rule: mutation_chunks.induct)
  case (1 s name v mutations tx i w)
  show ?case
  proof (cases "i < length mutations")
    case False
    then show ?thesis by (subst mutation_chunks.simps) simp
  next
    case True
    let ?sl = "if length mutations > i + mutationBatchSize
               then take mutationBatchSize (drop i mutations) else drop i mutations"
    have pos: "0 < mutationBatchSize" by (simp add: mutationBatchSize_def)
    have ch: "chunks mutationBatchSize (drop i mutations) =
                ?sl # chunks mutationBatchSize (drop (i + mutationBatchSize) mutations)"
      by (rule chunks_drop [OF pos True])
    obtain r w' where p: "putAppStateMutationMACs s name v ?sl w = (r, w')"
      by (cases "putAppStateMutationMACs s name v ?sl w") auto
    have unf: "mutation_chunks s name v mutations tx i w =
                 (case r of Some err \<Rightarrow> (Some err, Rollback tx w')
                  | None \<Rightarrow> mutation_chunks s name v mutations tx (i + mutationBatchSize) w')"
      using True p by (subst mutation_chunks.simps) (simp add: Let_def split: option.splits)
    show ?thesis
    proof (cases r)
      case None
      have "mutation_chunks s name v mutations tx (i + mutationBatchSize) w' =
              (case each_chunk (putAppStateMutationMACs s name v)
                      (chunks mutationBatchSize (drop (i + mutationBatchSize) mutations)) w' of
                 (Some err, w') \<Rightarrow> (Some err, Rollback tx w')
               | (None, w') \<Rightarrow> (None, w'))"
        using "1.IH" [OF True refl _ refl, of w'] p None by simp
      with unf None p show ?thesis unfolding ch by simp
    next
      case (Some e)
      with unf p show ?thesis unfolding ch by simp
    qed
  qed
qed

lemma contact_chunks_each:
  "contact_chunks J s contacts tx i w =
     (case each_chunk (putContactNamesBatch J s) (chunks contactBatchSize (drop i contacts)) w of
        (Some err, w') \<Rightarrow> (Some err, Rollback tx w')
      | (None, w') \<Rightarrow> (None, w'))"
proof (induction J s contacts tx i w rule: contact_chunks.induct)
  case (1 J s contacts tx i w)
  show ?case
  proof (cases "i < length contacts")
    case False
    then show ?thesis by (subst contact_chunks.simps) simp
  next
    case True
    let ?sl = "if length contacts > i + contactBatchSize
               then take contactBatchSize (drop i contacts) else drop i contacts"
    have pos: "0 < contactBatchSize" by (simp add: contactBatchSize_def)
    have ch: "chunks contactBatchSize (drop i contacts) =
                ?sl # chunks contactBatchSize (drop (i + contactBatchSize) contacts)"
      by (rule chunks_drop [OF pos True])
    obtain r w' where p: "putContactNamesBatch J s ?sl w = (r, w')"
      by (cases "putContactNamesBatch J s ?sl w") auto
    have unf: "contact_chunks J s contacts tx i w =
                 (case r of Some err \<Rightarrow> (Some err, Rollback tx w')
                  | None \<Rightarrow> contact_chunks J s contacts tx (i + contactBatchSize) w')"
      using True p by (subst contact_chunks.simps) (simp add: Let_def split: option.splits)
    show ?thesis
    proof (cases r)
      case None
      have "contact_chunks J s contacts tx (i + contactBatchSize) w' =
              (case each_chunk (putContactNamesBatch J s)
                      (chunks contactBatchSize (drop (i + contactBatchSize) contacts)) w' of
                 (Some err, w') \<Rightarrow> (Some err, Rollback tx w')
               | (None, w') \<Rightarrow> (None, w'))"
        using "1.IH" [OF True refl _ refl, of w'] p None by simp
      with unf None p show ?thesis unfolding ch by simp
    next
      case (Some e)
      with unf p show ?thesis unfolding ch by simp
    qed
  qed
qed

lemma secret_chunks_each:
  "secret_chunks J s inserts i w =
     each_chunk (putMessageSecretsWithRetry J s) (chunks msgSecretBatchSize (drop i inserts)) w"
proof (induction J s inserts i w rule: secret_chunks.induct)
  case (1 J s inserts i w)
  show ?case
  proof (cases "i < length inserts")
    case False
    then show ?thesis by (subst secret_chunks.simps) simp
  next
    case True
    let ?end = "if i + msgSecretBatchSize > length inserts then length inserts
                else i + msgSecretBatchSize"
    let ?sl = "take (?end - i) (drop i inserts)"
    have pos: "0 < msgSecretBatchSize" by (simp add: msgSecretBatchSize_def)
    have sl: "?sl = (if length inserts > i + msgSecretBatchSize
                     then take msgSecretBatchSize (drop i inserts) else drop i inserts)"
      using True by auto
    have ch: "chunks msgSecretBatchSize (drop i inserts) =
                ?sl # chunks msgSecretBatchSize (drop (i + msgSecretBatchSize) inserts)"
      unfolding sl by (rule chunks_drop [OF pos True])
    obtain r w' where p: "putMessageSecretsWithRetry J s ?sl w = (r, w')"
      by (cases "putMessageSecretsWithRetry J s ?sl w") auto
    have unf: "secret_chunks J s inserts i w =
                 (case r of Some err \<Rightarrow> (Some err, w')
                  | None \<Rightarrow> secret_chunks J s inserts (i + msgSecretBatchSize) w')"
      using True p by (subst secret_chunks.simps) (simp add: Let_def split: option.splits)
    show ?thesis
    proof (cases r)
      case None
      have "secret_chunks J s inserts (i + msgSecretBatchSize) w' =
              each_chunk (putMessageSecretsWithRetry J s)
                (chunks msgSecretBatchSize (drop (i + msgSecretBatchSize) inserts)) w'"
        using "1.IH" [OF True refl _ refl, of w'] p None by simp
      with unf None p show ?thesis unfolding ch by simp
    next
      case (Some e)
      with unf p show ?thesis unfolding ch by simp
    qed
  qed
qed

lemma Begin_db: "Begin w = (r, w1) \<Longrightarrow> db w1 = db w \<and> (\<forall>tx. r = Inr tx \<longrightarrow> tx = db w)"
  by (auto simp: Begin_def backend_call_def split: list.splits option.splits)

lemma Commit_err: "Commit tx w = (Some e, w') \<Longrightarrow> db w' = tx"
  by (auto simp: Commit_def backend_call_def split: list.splits option.splits)

lemma atomically_rollback:
  "atomically body w = (Some e, w') \<Longrightarrow> db w' = db w"
  by (auto simp: atomically_def Rollback_def split: prod.splits sum.splits option.splits
      dest: Begin_db Commit_err)

lemma secret_inserts_err:
  "secret_inserts J s query tx inserts w = (Some e, w') \<Longrightarrow> db w' = tx"
  by (induction inserts arbitrary: w)
     (auto simp: Rollback_def split: prod.splits option.splits)

lemma putMessageSecretsInternal_err:
  "putMessageSecretsInternal J s inserts w = (Some e, w') \<Longrightarrow> db w' = db w"
  by (auto simp: putMessageSecretsInternal_def Let_def
      split: prod.splits sum.splits option.splits
      dest: Begin_db Commit_err secret_inserts_err)

lemma retry_attempts_err:
  "retry_attempts J s inserts attempt w = (Some e, w') \<Longrightarrow> db w' = db w"
proof (induction J s inserts attempt w rule: retry_attempts.induct)
  case (1 J s inserts attempt w)
  show ?case
  proof (cases "attempt < maxRetries")
    case False
    with "1.prems" show ?thesis by (subst (asm) retry_attempts.simps) simp
  next
    case True
    obtain r w1 where p: "putMessageSecretsInternal J s inserts w = (r, w1)"
      by (cases "putMessageSecretsInternal J s inserts w") auto
    show ?thesis
    proof (cases r)
      case None
      with True p "1.prems" show ?thesis by (subst (asm) retry_attempts.simps) simp
    next
      case (Some err)
      with p have same: "db w1 = db w" by (simp add: putMessageSecretsInternal_err)
      show ?thesis
      proof (cases "dialect s = ''mysql'' \<and>
                    \<not> strings_Contains (Error err) ''Lock wait timeout exceeded''")
        case True
        with \<open>attempt < maxRetries\<close> p Some "1.prems" same show ?thesis
          by (subst (asm) retry_attempts.simps) auto
      next
        case False
        with \<open>attempt < maxRetries\<close> p Some "1.prems"
        have rec: "retry_attempts J s inserts (attempt + 1)
                     (time_Sleep (100 * (attempt + 1)) w1) = (Some e, w')"
          by (subst (asm) retry_attempts.simps) auto
        have "db w' = db (time_Sleep (100 * (attempt + 1)) w1)"
          using "1.IH" [OF \<open>attempt < maxRetries\<close> p [symmetric] Some False rec] .
        with same show ?thesis by (simp add: time_Sleep_def)
      qed
    qed
  qed
qed

lemma putMessageSecretsWithRetry_err:
  "putMessageSecretsWithRetry J s inserts w = (Some e, w') \<Longrightarrow> db w' = db w"
  unfolding putMessageSecretsWithRetry_def by (rule retry_attempts_err)

lemma each_chunk_failure:
  assumes "\<And>c w e w'. f c w = (Some e, w') \<Longrightarrow> db w' = db w"
  shows "each_chunk f cs w = (Some e, w') \<Longrightarrow>
     \<exists>n wn. n < length cs \<and> each_chunk f (take n cs) w = (None, wn) \<and>
            f (cs ! n) wn = (Some e, w') \<and> db w' = db wn"
proof (induction cs arbitrary: w)
  case Nil
  then show ?case by simp
next
  case (Cons c cs)
  obtain r w1 where p: "f c w = (r, w1)" by (cases "f c w") auto
  show ?case
  proof (cases r)
    case (Some e1)
    with p Cons.prems have "e1 = e" "w1 = w'" by auto
    with p Some assms [of c w e w'] have
      "0 < length (c # cs) \<and> each_chunk f (take 0 (c # cs)) w = (None, w) \<and>
       f ((c # cs) ! 0) w = (Some e, w') \<and> db w' = db w"
      by simp
    then show ?thesis by blast
  next
    case None
    with p Cons.prems have "each_chunk f cs w1 = (Some e, w')" by simp
    from Cons.IH [OF this] obtain n wn where
      n: "n < length cs" "each_chunk f (take n cs) w1 = (None, wn)"
         "f (cs ! n) wn = (Some e, w')" "db w' = db wn"
      by blast
    with p None have
      "Suc n < length (c # cs) \<and> each_chunk f (take (Suc n) (c # cs)) w = (None, wn) \<and>
       f ((c # cs) ! Suc n) wn = (Some e, w') \<and> db w' = db wn"
      by simp
    then show ?thesis by blast
  qed
qed

lemma PutAppStateMutationMACs_chunked:
  "mutationBatchSize < length mutations \<Longrightarrow>
   PutAppStateMutationMACs s name v mutations w =
     atomically (each_chunk (putAppStateMutationMACs s name v)
                   (chunks mutationBatchSize mutations)) w"
  by (auto simp: PutAppStateMutationMACs_def atomically_def mutation_chunks_each Rollback_def
      split: prod.splits sum.splits option.splits)

lemma PutAllContactNames_chunked:
  "contactBatchSize < length contacts \<Longrightarrow>
   PutAllContactNames J s contacts w =
     (case atomically (each_chunk (putContactNamesBatch J s)
                         (chunks contactBatchSize contacts)) w of
        (Some err, w') \<Rightarrow> (Some err, w')
      | (None, w') \<Rightarrow> (None, clear_contactCache w'))"
  by (auto simp: PutAllContactNames_def atomically_def contact_chunks_each Rollback_def
      split: prod.splits sum.splits option.splits)

lemma PutMessageSecrets_chunked:
  "msgSecretBatchSize < length inserts \<Longrightarrow>
   PutMessageSecrets J s inserts w =
     each_chunk (putMessageSecretsWithRetry J s) (chunks msgSecretBatchSize inserts) w"
  by (simp add: PutMessageSecrets_def secret_chunks_each)

lemma putMessageSecretsWithRetry_mysql_other_error:
  assumes "dialect s = ''mysql''"
    and "putMessageSecretsInternal J s inserts w = (Some err, w')"
    and "\<not> strings_Contains (Error err) ''Lock wait timeout exceeded''"
  shows "putMessageSecretsWithRetry J s inserts w = (Some err, w')"
  using assms unfolding putMessageSecretsWithRetry_def
  by (subst retry_attempts.simps) (simp add: maxRetries_def)

subsection \<open>C1: the timestamp guard of app state sync keys\<close>

text \<open>
  C1 asks that a second \<open>PutAppStateSyncKey\<close> for the same key id replaces the stored
  row if and only if its timestamp is strictly greater, on every dialect. On the
  dialect \<open>mysql\<close> the store writes the second value although its timestamp is
  smaller: after a put with timestamp 100 and a put with timestamp 50, both accepted by
  the driver, the row holds the data, timestamp and fingerprint of the second put.
\<close>

theorem PutAppStateSyncKey_mysql_overwrites:
  "(let s = store_of ''mysql'';
        r1 = PutAppStateSyncKey s [0xAB] \<lparr> Data = [1], Fingerprint = [7], Timestamp = 100 \<rparr> world0;
        r2 = PutAppStateSyncKey s [0xAB] \<lparr> Data = [2], Fingerprint = [8], Timestamp = 50 \<rparr> (snd r1)
    in fst r1 = None \<and> fst r2 = None \<and>
       map_of (whatsmeow_app_state_sync_keys (db (snd r2))) (JID s, [0xAB]) =
         Some \<lparr> key_data = [2], timestamp = 50, fingerprint = [8] \<rparr>)"
  by code_simp

subsection \<open>C2: message secrets are written once\<close>

text \<open>
  What the two upserts do when the engine accepts them: for a key without a stored
  secret, after \<open>PutMessageSecret\<close> with \<open>k1\<close> and then with \<open>k2\<close>,
  \<open>GetMessageSecret\<close> returns \<open>k1\<close> without an error. On the dialects
  \<open>mysql\<close> and \<open>sqlite3\<close> the engine accepts them.
\<close>

lemma PutMessageSecret_keeps_first_when_accepted:
  assumes "map_of (whatsmeow_message_secrets (db w))
             (JID s, String J (ToNonAD J c), String J (ToNonAD J sd), m) = None"
    and "PutMessageSecret J s c sd m k1 w = (None, w1)"
    and "PutMessageSecret J s c sd m k2 w1 = (None, w2)"
    and "fst (backend_call w2) = None"
  shows "fst (GetMessageSecret J s c sd m w2) = (k1, None)"
proof -
  let ?key = "(JID s, String J (ToNonAD J c), String J (ToNonAD J sd), m)"
  from PutMessageSecret_ok [OF assms(2)]
  have "whatsmeow_message_secrets (db w1) = on_conflict_do_nothing ?key k1 (whatsmeow_message_secrets (db w))"
    by (auto simp: putMsgSecret_def dest: arg_cong [where f = whatsmeow_message_secrets])
  with assms(1) have "map_of (whatsmeow_message_secrets (db w1)) ?key = Some k1"
    by (simp add: map_of_on_conflict_do_nothing)
  moreover from PutMessageSecret_ok [OF assms(3)]
  have "whatsmeow_message_secrets (db w2) = on_conflict_do_nothing ?key k2 (whatsmeow_message_secrets (db w1))"
    by (auto simp: putMsgSecret_def dest: arg_cong [where f = whatsmeow_message_secrets])
  ultimately have "map_of (whatsmeow_message_secrets (db w2)) ?key = Some k1"
    by (simp add: map_of_on_conflict_do_nothing)
  with assms(4) show ?thesis
    by (simp add: GetMessageSecret_def getMsgSecret_def backend_call_ok)
qed

lemma PutMessageSecret_first_write_wins_mysql:
  "(let s = store_of ''mysql'';
        r1 = PutMessageSecret plain_jid s ''c@g.us'' ''s@s.whatsapp.net'' ''M1'' [1] world0;
        r2 = PutMessageSecret plain_jid s ''c@g.us'' ''s@s.whatsapp.net'' ''M1'' [2] (snd r1);
        g = GetMessageSecret plain_jid s ''c@g.us'' ''s@s.whatsapp.net'' ''M1'' (snd r2)
    in fst r1 = None \<and> fst r2 = None \<and> fst g = ([1], None))"
  by code_simp

lemma PutMessageSecret_first_write_wins_sqlite3:
  "(let s = store_of ''sqlite3'';
        r1 = PutMessageSecret plain_jid s ''c@g.us'' ''s@s.whatsapp.net'' ''M1'' [1] world0;
        r2 = PutMessageSecret plain_jid s ''c@g.us'' ''s@s.whatsapp.net'' ''M1'' [2] (snd r1);
        g = GetMessageSecret plain_jid s ''c@g.us'' ''s@s.whatsapp.net'' ''M1'' (snd r2)
    in fst r1 = None \<and> fst r2 = None \<and> fst g = ([1], None))"
  by code_simp

text \<open>
  C2 asks that after \<open>PutMessageSecret\<close> with \<open>k1\<close> and then with \<open>k2\<close> for one
  chat, sender and message id, \<open>GetMessageSecret\<close> returns \<open>k1\<close>, on all dialects.
  The template \<^verbatim>\<open>putMsgSecret\<close> names its last column with MySQL's back quotes, and
  the branch of \<open>PutMessageSecret\<close> for the dialects other than \<open>mysql\<close> sends it
  through \<open>dialectQuery\<close>, which returns it unchanged for \<open>postgres\<close>: on a fresh
  account, with a driver that never fails, PostgreSQL refuses both calls with a syntax
  error, no row is stored, and \<open>GetMessageSecret\<close> returns the empty secret without
  an error, not \<open>k1\<close>.
\<close>

theorem PutMessageSecret_postgres_stores_nothing:
  "(let s = store_of ''postgres'';
        r1 = PutMessageSecret plain_jid s ''c@g.us'' ''s@s.whatsapp.net'' ''M1'' [1] world0;
        r2 = PutMessageSecret plain_jid s ''c@g.us'' ''s@s.whatsapp.net'' ''M1'' [2] (snd r1);
        g = GetMessageSecret plain_jid s ''c@g.us'' ''s@s.whatsapp.net'' ''M1'' (snd r2)
    in dialectQuery s putMsgSecret_text = putMsgSecret_text \<and>
       CHR 0x60 \<in> set putMsgSecret_text \<and>
       fst r1 = Some (Backend ''syntax error at or near `'') \<and>
       fst r2 = Some (Backend ''syntax error at or near `'') \<and>
       whatsmeow_message_secrets (db (snd r2)) = [] \<and>
       fst g = ([], None))"
  by code_simp


subsection \<open>C3: the retry envelope of message secrets\<close>

text \<open>
  C3 asks that a failed write of a chunk of message secrets is repeated only for a
  lock-wait timeout and that every other error is returned at once, on every dialect.
  On a dialect other than \<open>mysql\<close> the test of \<open>putMessageSecretsWithRetry\<close> never
  returns an error at once: with a driver that answers \<^verbatim>\<open>connection reset by peer\<close>
  to every insert on the dialect \<open>postgres\<close>, three attempts are made, with sleeps of
  100, 200 and 300 milliseconds, and the error returned is the one of the exhausted
  retries.
\<close>

theorem putMessageSecretsWithRetry_retries_any_error:
  "(let w = world0\<lparr>faults := [None, Some ''connection reset by peer'',
                               None, Some ''connection reset by peer'',
                               None, Some ''connection reset by peer'']\<rparr>;
        r = putMessageSecretsWithRetry plain_jid (store_of ''postgres'') (take 1 secrets51) w
    in fst r = Some (Errorf ''failed to store message secrets after 3 retry attempts'') \<and>
       slept (snd r) = [100, 200, 300] \<and>
       faults (snd r) = [])"
  by code_simp


subsection \<open>C4: chunks and rollback\<close>

text \<open>
  C4 asks that a failure while writing chunk \<open>n\<close> leaves the database as it was before
  the call, for each of the three families. \<open>PutMessageSecrets\<close> writes every chunk in
  a transaction of its own: with 51 secrets on the dialect \<open>mysql\<close> and a driver that
  fails when the second chunk begins, the call returns the error and the 50 secrets of
  the first chunk stay in the table.
\<close>

theorem PutMessageSecrets_keeps_earlier_chunks:
  "(let w = world0\<lparr>faults := replicate 52 None @ [Some ''server has gone away'']\<rparr>;
        r = PutMessageSecrets plain_jid (store_of ''mysql'') secrets51 w
    in msgSecretBatchSize < length secrets51 \<and>
       fst r = Some (Wrap ''failed to begin transaction: '' (Backend ''server has gone away'')) \<and>
       whatsmeow_message_secrets (db w) = [] \<and>
       length (whatsmeow_message_secrets (db (snd r))) = 50)"
  by code_simp


text \<open>
  C4, as it holds on the code. A list longer than the threshold of its family is handed to the batch
  writer as the consecutive chunks of at most 400, 300 or 50 elements, in order, each
  chunk once (the chunks are not empty, no longer than the threshold, and their
  concatenation is the list). \<open>PutAppStateMutationMACs\<close> and \<open>PutAllContactNames\<close>
  run the chunks in one transaction, and a call that fails leaves the database as it was
  before the call. \<open>PutMessageSecrets\<close> runs each chunk with its retries in a
  transaction of its own: a call that fails at chunk \<open>k + 1\<close> leaves the database as
  it was after the first \<open>k\<close> chunks.
\<close>

theorem chunked_writes:
  "(0 < n \<longrightarrow> concat (chunks n xs) = xs \<and> (\<forall>c \<in> set (chunks n xs). c \<noteq> [] \<and> length c \<le> n)) \<and>
   (mutationBatchSize < length mutations \<longrightarrow>
      PutAppStateMutationMACs s name v mutations w =
        atomically (each_chunk (putAppStateMutationMACs s name v)
                      (chunks mutationBatchSize mutations)) w \<and>
      (\<forall>e w'. PutAppStateMutationMACs s name v mutations w = (Some e, w') \<longrightarrow> db w' = db w)) \<and>
   (contactBatchSize < length contacts \<longrightarrow>
      PutAllContactNames J s contacts w =
        (case atomically (each_chunk (putContactNamesBatch J s)
                            (chunks contactBatchSize contacts)) w of
           (Some err, w') \<Rightarrow> (Some err, w')
         | (None, w') \<Rightarrow> (None, clear_contactCache w')) \<and>
      (\<forall>e w'. PutAllContactNames J s contacts w = (Some e, w') \<longrightarrow> db w' = db w)) \<and>
   (msgSecretBatchSize < length inserts \<longrightarrow>
      PutMessageSecrets J s inserts w =
        each_chunk (putMessageSecretsWithRetry J s) (chunks msgSecretBatchSize inserts) w \<and>
      (\<forall>e w'. PutMessageSecrets J s inserts w = (Some e, w') \<longrightarrow>
         (\<exists>k wk. k < length (chunks msgSecretBatchSize inserts) \<and>
            each_chunk (putMessageSecretsWithRetry J s)
              (take k (chunks msgSecretBatchSize inserts)) w = (None, wk) \<and>
            putMessageSecretsWithRetry J s (chunks msgSecretBatchSize inserts ! k) wk = (Some e, w') \<and>
            db w' = db wk)))"
proof (intro conjI impI allI)
  assume "0 < n"
  then show "concat (chunks n xs) = xs" by (rule concat_chunks)
  from \<open>0 < n\<close> show "\<forall>c \<in> set (chunks n xs). c \<noteq> [] \<and> length c \<le> n"
    using chunks_bounded by blast
next
  assume a: "mutationBatchSize < length mutations"
  then show "PutAppStateMutationMACs s name v mutations w =
        atomically (each_chunk (putAppStateMutationMACs s name v)
                      (chunks mutationBatchSize mutations)) w"
    by (rule PutAppStateMutationMACs_chunked)
  fix e w' assume "PutAppStateMutationMACs s name v mutations w = (Some e, w')"
  then show "db w' = db w"
    unfolding PutAppStateMutationMACs_chunked [OF a] by (rule atomically_rollback)
next
  assume a: "contactBatchSize < length contacts"
  then show "PutAllContactNames J s contacts w =
        (case atomically (each_chunk (putContactNamesBatch J s)
                            (chunks contactBatchSize contacts)) w of
           (Some err, w') \<Rightarrow> (Some err, w')
         | (None, w') \<Rightarrow> (None, clear_contactCache w'))"
    by (rule PutAllContactNames_chunked)
  fix e w' assume "PutAllContactNames J s contacts w = (Some e, w')"
  then have "atomically (each_chunk (putContactNamesBatch J s)
                            (chunks contactBatchSize contacts)) w = (Some e, w')"
    unfolding PutAllContactNames_chunked [OF a]
    by (auto split: prod.splits option.splits)
  then show "db w' = db w" by (rule atomically_rollback)
next
  assume a: "msgSecretBatchSize < length inserts"
  then show "PutMessageSecrets J s inserts w =
        each_chunk (putMessageSecretsWithRetry J s) (chunks msgSecretBatchSize inserts) w"
    by (rule PutMessageSecrets_chunked)
  fix e w' assume "PutMessageSecrets J s inserts w = (Some e, w')"
  then have "each_chunk (putMessageSecretsWithRetry J s) (chunks msgSecretBatchSize inserts) w
               = (Some e, w')"
    unfolding PutMessageSecrets_chunked [OF a] .
  then show "\<exists>k wk. k < length (chunks msgSecretBatchSize inserts) \<and>
            each_chunk (putMessageSecretsWithRetry J s)
              (take k (chunks msgSecretBatchSize inserts)) w = (None, wk) \<and>
            putMessageSecretsWithRetry J s (chunks msgSecretBatchSize inserts ! k) wk = (Some e, w') \<and>
            db w' = db wk"
    by (rule each_chunk_failure [rotated]) (rule putMessageSecretsWithRetry_err)
qed


theorem chunked_writes_witness:
  "(0::nat) < 2 \<and> concat (chunks 2 [1, 2, 3 :: nat]) = [1, 2, 3] \<and>
   [1, 2 :: nat] \<in> set (chunks 2 [1, 2, 3]) \<and> length [1, 2 :: nat] \<le> 2 \<and>
   mutationBatchSize < length (replicate 401 \<lparr> IndexMAC = [1], ValueMAC = [2] \<rparr>) \<and>
   fst (PutAppStateMutationMACs (store_of ''sqlite3'') ''regular'' 1
          (replicate 401 \<lparr> IndexMAC = [1], ValueMAC = [2] \<rparr>) world_down) =
     Some (Wrap ''failed to start transaction: '' (Backend ''server has gone away'')) \<and>
   db (snd (PutAppStateMutationMACs (store_of ''sqlite3'') ''regular'' 1
              (replicate 401 \<lparr> IndexMAC = [1], ValueMAC = [2] \<rparr>) world_down)) = db world_down \<and>
   contactBatchSize < length (replicate 301 \<lparr> EntryJID = ''a@s.whatsapp.net'', FirstName = ''A'', FullName = ''AA'' \<rparr>) \<and>
   fst (PutAllContactNames plain_jid (store_of ''postgres'')
          (replicate 301 \<lparr> EntryJID = ''a@s.whatsapp.net'', FirstName = ''A'', FullName = ''AA'' \<rparr>)
          world_down) =
     Some (Wrap ''failed to start transaction: '' (Backend ''server has gone away'')) \<and>
   db (snd (PutAllContactNames plain_jid (store_of ''postgres'')
              (replicate 301 \<lparr> EntryJID = ''a@s.whatsapp.net'', FirstName = ''A'', FullName = ''AA'' \<rparr>)
              world_down)) = db world_down \<and>
   msgSecretBatchSize < length secrets51 \<and>
   fst (PutMessageSecrets plain_jid (store_of ''mysql'') secrets51 world_down) =
     Some (Wrap ''failed to begin transaction: '' (Backend ''server has gone away'')) \<and>
   (\<exists>k wk. k < length (chunks msgSecretBatchSize secrets51) \<and>
      each_chunk (putMessageSecretsWithRetry plain_jid (store_of ''mysql''))
        (take k (chunks msgSecretBatchSize secrets51)) world_down = (None, wk) \<and>
      db (snd (PutMessageSecrets plain_jid (store_of ''mysql'') secrets51 world_down)) = db wk)"
proof -
  let ?ms = "replicate 401 \<lparr> IndexMAC = [1], ValueMAC = [2] \<rparr>"
  let ?cs = "replicate 301 \<lparr> EntryJID = ''a@s.whatsapp.net'', FirstName = ''A'', FullName = ''AA'' \<rparr>"
  let ?e1 = "Wrap ''failed to start transaction: '' (Backend ''server has gone away'')"
  let ?e2 = "Wrap ''failed to begin transaction: '' (Backend ''server has gone away'')"
  let ?rm = "PutAppStateMutationMACs (store_of ''sqlite3'') ''regular'' 1 ?ms world_down"
  let ?rc = "PutAllContactNames plain_jid (store_of ''postgres'') ?cs world_down"
  let ?rs = "PutMessageSecrets plain_jid (store_of ''mysql'') secrets51 world_down"
  have n: "(0::nat) < 2" by simp
  have mem: "[1, 2 :: nat] \<in> set (chunks 2 [1, 2, 3])"
    by (simp add: chunks_step)
  have lm: "mutationBatchSize < length ?ms" by (simp add: mutationBatchSize_def)
  have lc: "contactBatchSize < length ?cs" by (simp add: contactBatchSize_def)
  have ls: "msgSecretBatchSize < length secrets51" by (simp add: msgSecretBatchSize_def secrets51_def)
  have nm: "fst ?rm = Some ?e1"
    by (simp add: PutAppStateMutationMACs_def mutationBatchSize_def Begin_def backend_call_def
        world_down_def world0_def)
  then have fm: "?rm = (Some ?e1, snd ?rm)" by (simp add: prod_eq_iff)
  have nc: "fst ?rc = Some ?e1"
    by (simp add: PutAllContactNames_def contactBatchSize_def Begin_def backend_call_def
        world_down_def world0_def)
  then have fc: "?rc = (Some ?e1, snd ?rc)" by (simp add: prod_eq_iff)
  have ns: "fst ?rs = Some ?e2"
    by code_simp
  then have fs: "?rs = (Some ?e2, snd ?rs)" by (simp add: prod_eq_iff)
  note t = chunked_writes [of 2 "[1, 2, 3 :: nat]" ?ms "store_of ''sqlite3''" "''regular''" 1
      world_down ?cs plain_jid secrets51]
  note t1 = t [THEN conjunct1, rule_format, OF n]
  note t1b = t1 [THEN conjunct2, rule_format, OF mem, THEN conjunct2]
  note t2 = t [THEN conjunct2, THEN conjunct1, rule_format, OF lm, THEN conjunct2, rule_format, OF fm]
  note u = chunked_writes [of 2 "[1, 2, 3 :: nat]" ?ms "store_of ''postgres''" "''regular''" 1
      world_down ?cs plain_jid secrets51]
  note t3 = u [THEN conjunct2, THEN conjunct2, THEN conjunct1, rule_format, OF lc,
      THEN conjunct2, rule_format, OF fc]
  note v = chunked_writes [of 2 "[1, 2, 3 :: nat]" ?ms "store_of ''mysql''" "''regular''" 1
      world_down ?cs plain_jid secrets51]
  note t4 = v [THEN conjunct2, THEN conjunct2, THEN conjunct2, rule_format, OF ls,
      THEN conjunct2, rule_format, OF fs]
  from t4 have ex: "\<exists>k wk. k < length (chunks msgSecretBatchSize secrets51) \<and>
      each_chunk (putMessageSecretsWithRetry plain_jid (store_of ''mysql''))
        (take k (chunks msgSecretBatchSize secrets51)) world_down = (None, wk) \<and>
      db (snd ?rs) = db wk"
    by blast
  show ?thesis
    by (intro conjI n t1 [THEN conjunct1] mem t1b lm nm t2 lc nc t3 ls ns ex)
qed

subsection \<open>C5: trust on first use\<close>

text \<open>
  C5. When the driver answers the identity query, \<open>IsTrustedIdentity\<close> returns true
  without an error if no identity row exists for the peer, the byte-exact equality of
  the stored key and the supplied 32-byte key if the stored blob has 32 bytes, and the
  error \<open>ErrInvalidLength\<close> if the stored blob has any other length.
\<close>

theorem IsTrustedIdentity_cases:
  assumes "fst (backend_call w) = None" and "length k' = 32"
  shows "fst (IsTrustedIdentity s peer k' w) =
     (case map_of (whatsmeow_identity_keys (db w)) (JID s, peer) of
        None \<Rightarrow> (True, None)
      | Some stored \<Rightarrow>
          if length stored = 32 then (stored = k', None)
          else (False, Some ErrInvalidLength))"
  using assms(1)
  by (simp add: IsTrustedIdentity_def getIdentityQuery_def backend_call_ok
      split: option.splits)

theorem IsTrustedIdentity_cases_witness:
  "fst (backend_call world0) = None \<and> length (replicate 32 (7 :: 8 word)) = 32 \<and>
   fst (IsTrustedIdentity (store_of ''postgres'') ''222:0'' (replicate 32 7) world0) = (True, None)"
  using IsTrustedIdentity_cases [of world0 "replicate 32 7" "store_of ''postgres''" "''222:0''"]
  by (simp add: world0_def backend_call_def store_of_def)

subsection \<open>C6: deleting one identity\<close>

text \<open>
  C6 asks that \<open>DeleteIdentity\<close> removes exactly the row whose peer id equals the
  address. The store runs the \<^verbatim>\<open>LIKE\<close> statement of \<open>DeleteAllIdentities\<close>
  with the address as the pattern: with identities stored for the peers
  \<^verbatim>\<open>1234_1:0\<close> and \<^verbatim>\<open>123411:0\<close>, deleting \<^verbatim>\<open>1234_1:0\<close> also removes the row
  of \<^verbatim>\<open>123411:0\<close>.
\<close>

theorem DeleteIdentity_removes_other_peer:
  "(let s = store_of ''postgres'';
        w1 = snd (PutIdentity s ''1234_1:0'' (replicate 32 1) world0);
        w2 = snd (PutIdentity s ''123411:0'' (replicate 32 2) w1);
        r = DeleteIdentity s ''1234_1:0'' w2
    in map_of (whatsmeow_identity_keys (db w2)) (JID s, ''123411:0'') = Some (replicate 32 2) \<and>
       fst r = None \<and>
       map_of (whatsmeow_identity_keys (db (snd r))) (JID s, ''123411:0'') = None)"
  by code_simp

subsection \<open>C7: positional markers\<close>

text \<open>
  C7 asks that \<open>dialectQuery\<close> rewrites every marker \<^verbatim>\<open>$N\<close> to \<^verbatim>\<open>?\<close> for the
  dialect tags \<^verbatim>\<open>sqlite\<close> and \<^verbatim>\<open>mysql\<close>. The function tests the tag against
  \<^verbatim>\<open>sqlite3\<close>: for the tag \<^verbatim>\<open>sqlite\<close> it returns the template as it is. (For the
  tag \<^verbatim>\<open>sqlite3\<close> the marker \<^verbatim>\<open>$10\<close> of a template becomes \<^verbatim>\<open>?0\<close>, since the
  round for \<^verbatim>\<open>$1\<close> runs first.)
\<close>

theorem dialectQuery_sqlite_tag_counterexample:
  "dialectQuery (store_of ''sqlite'')
     ''SELECT session FROM whatsmeow_sessions WHERE our_jid=$1 AND their_id=$2'' =
     ''SELECT session FROM whatsmeow_sessions WHERE our_jid=$1 AND their_id=$2'' \<and>
   rewrite_markers ''SELECT session FROM whatsmeow_sessions WHERE our_jid=$1 AND their_id=$2'' =
     ''SELECT session FROM whatsmeow_sessions WHERE our_jid=? AND their_id=?'' \<and>
   dialectQuery (store_of ''sqlite3'') ''($1, $2, $3, $4),($1, $5, $6, $7),($1, $8, $9, $10)'' =
     ''(?, ?, ?, ?),(?, ?, ?, ?),(?, ?, ?, ?0)''"
  by code_simp


text \<open>
  C7, as it holds on the code. For a template whose markers are \<^verbatim>\<open>$1\<close> to \<^verbatim>\<open>$9\<close>: on the tag
  \<^verbatim>\<open>sqlite3\<close> \<open>dialectQuery\<close> returns the template with every marker rewritten to
  \<^verbatim>\<open>?\<close>; on the tag \<^verbatim>\<open>mysql\<close> it returns that text after the MySQL rewrites, which
  keep the question marks in their order; on every other tag it returns the template
  unchanged.
\<close>

theorem dialectQuery_markers:
  "(dialect s = ''sqlite3'' \<and> small_markers q \<longrightarrow> dialectQuery s q = rewrite_markers q) \<and>
   (dialect s = ''mysql'' \<and> small_markers q \<longrightarrow>
      dialectQuery s q = mysql_rewrites (rewrite_markers q) \<and>
      marker_chars (dialectQuery s q) = marker_chars (rewrite_markers q)) \<and>
   (dialect s \<noteq> ''mysql'' \<and> dialect s \<noteq> ''sqlite3'' \<longrightarrow> dialectQuery s q = q)"
  unfolding dialectQuery_def Let_def marker_rounds
  by (simp add: rewrite_markers_small marker_chars_mysql_rewrites)

theorem dialectQuery_markers_witness:
  "small_markers ''SELECT session FROM whatsmeow_sessions WHERE our_jid=$1 AND their_id=$2'' \<and>
   dialectQuery (store_of ''sqlite3'')
     ''SELECT session FROM whatsmeow_sessions WHERE our_jid=$1 AND their_id=$2'' =
     ''SELECT session FROM whatsmeow_sessions WHERE our_jid=? AND their_id=?'' \<and>
   marker_chars (dialectQuery (store_of ''mysql'')
     ''SELECT session FROM whatsmeow_sessions WHERE our_jid=$1 AND their_id=$2'') = ''??'' \<and>
   dialectQuery (store_of ''postgres'')
     ''SELECT session FROM whatsmeow_sessions WHERE our_jid=$1 AND their_id=$2'' =
     ''SELECT session FROM whatsmeow_sessions WHERE our_jid=$1 AND their_id=$2''"
proof -
  let ?q = "''SELECT session FROM whatsmeow_sessions WHERE our_jid=$1 AND their_id=$2''"
  have small: "small_markers ?q"
    by code_simp
  have rw: "rewrite_markers ?q = ''SELECT session FROM whatsmeow_sessions WHERE our_jid=? AND their_id=?''"
    by code_simp
  have ph: "marker_chars ''SELECT session FROM whatsmeow_sessions WHERE our_jid=? AND their_id=?'' = ''??''"
    by code_simp
  have d1: "dialect (store_of ''sqlite3'') = ''sqlite3''"
    and d2: "dialect (store_of ''mysql'') = ''mysql''"
    and d3: "dialect (store_of ''postgres'') \<noteq> ''mysql'' \<and> dialect (store_of ''postgres'') \<noteq> ''sqlite3''"
    by (simp_all add: store_of_def)
  have a: "dialectQuery (store_of ''sqlite3'') ?q =
             ''SELECT session FROM whatsmeow_sessions WHERE our_jid=? AND their_id=?''"
    using dialectQuery_markers [of "store_of ''sqlite3''" ?q, THEN conjunct1, rule_format,
        OF conjI [OF d1 small]]
    unfolding rw .
  have b: "marker_chars (dialectQuery (store_of ''mysql'') ?q) = ''??''"
    using dialectQuery_markers [of "store_of ''mysql''" ?q, THEN conjunct2, THEN conjunct1,
        rule_format, OF conjI [OF d2 small], THEN conjunct2]
    unfolding rw ph .
  have c: "dialectQuery (store_of ''postgres'') ?q = ?q"
    using dialectQuery_markers [of "store_of ''postgres''" ?q, THEN conjunct2, THEN conjunct2,
        rule_format, OF d3] .
  show ?thesis
    by (intro conjI small a b c)
qed

subsection \<open>C8: pre-key ids\<close>

text \<open>
  What \<open>GenOnePreKey\<close> does when the engine accepts the insert: a call that succeeds
  returns the key id \<open>max(key_id) + 1\<close> of the account (1 when the account has no
  pre-key) and has inserted the key under that id with \<open>uploaded = true\<close>; a second
  call right after it returns a strictly greater id.
\<close>

lemma GenOnePreKey_ids_when_accepted:
  "GenOnePreKey s w = ((Some k1, None), w1) \<longrightarrow>
      unat (KeyID k1) = (case sql_MAX (key_ids (JID s) (db w)) of None \<Rightarrow> 0 | Some m \<Rightarrow> m) + 1 \<and>
      map_of (whatsmeow_pre_keys (db w1)) (JID s, unat (KeyID k1)) =
        Some \<lparr> key_col = Priv k1, uploaded_col = True \<rparr> \<and>
      (\<forall>k2 w2. GenOnePreKey s w1 = ((Some k2, None), w2) \<longrightarrow>
         unat (KeyID k1) < unat (KeyID k2))"
proof (intro conjI impI allI)
  assume a: "GenOnePreKey s w = ((Some k1, None), w1)"
  note ok = GenOnePreKey_ok [OF a]
  have bound: "(case sql_MAX (key_ids (JID s) (db w)) of None \<Rightarrow> 0 | Some m \<Rightarrow> m) < 2 ^ 31"
    using ok(1) by (auto split: option.splits)
  show u1: "unat (KeyID k1) = (case sql_MAX (key_ids (JID s) (db w)) of None \<Rightarrow> 0 | Some m \<Rightarrow> m) + 1"
  proof (cases "sql_MAX (key_ids (JID s) (db w))")
    case None
    with ok(2) show ?thesis by simp
  next
    case (Some m)
    with bound have "m < 2 ^ 31" by simp
    then have "unat (of_nat m + 1 :: 32 word) = m + 1"
      by (simp add: unat_word_ariths unat_of_nat)
    with ok(2) Some show ?thesis by simp
  qed
  have fresh: "map_of (whatsmeow_pre_keys (db w)) (JID s, unat (KeyID k1)) = None"
  proof (rule ccontr)
    assume "map_of (whatsmeow_pre_keys (db w)) (JID s, unat (KeyID k1)) \<noteq> None"
    then obtain r where "((JID s, unat (KeyID k1)), r) \<in> set (whatsmeow_pre_keys (db w))"
      by (auto dest: map_of_SomeD)
    then have mem: "unat (KeyID k1) \<in> set (key_ids (JID s) (db w))"
      by (force simp: key_ids_def)
    then obtain m where m: "sql_MAX (key_ids (JID s) (db w)) = Some m"
      by (cases "sql_MAX (key_ids (JID s) (db w))") auto
    with sql_MAX_Some [OF m] mem have "unat (KeyID k1) \<le> m" by blast
    with u1 m show False by simp
  qed
  show "map_of (whatsmeow_pre_keys (db w1)) (JID s, unat (KeyID k1)) =
        Some \<lparr> key_col = Priv k1, uploaded_col = True \<rparr>"
    using fresh by (simp add: ok(3) map_add_def)
  fix k2 w2
  assume b: "GenOnePreKey s w1 = ((Some k2, None), w2)"
  note ok2 = GenOnePreKey_ok [OF b]
  have ids: "key_ids (JID s) (db w1) = key_ids (JID s) (db w) @ [unat (KeyID k1)]"
    by (simp add: ok(3) key_ids_append)
  then obtain m2 where m2: "sql_MAX (key_ids (JID s) (db w1)) = Some m2"
    by (cases "sql_MAX (key_ids (JID s) (db w1))") auto
  from sql_MAX_Some [OF m2] ids have ge: "unat (KeyID k1) \<le> m2" by simp
  from ok2(1) m2 have "m2 < 2 ^ 31" by simp
  then have "unat (of_nat m2 + 1 :: 32 word) = m2 + 1"
    by (simp add: unat_word_ariths unat_of_nat)
  with ok2(2) m2 have "unat (KeyID k2) = m2 + 1" by simp
  with ge show "unat (KeyID k1) < unat (KeyID k2)" by simp
qed

text \<open>
  On a fresh account and an engine other than PostgreSQL, three calls return the ids 1,
  2 and 3 and \<open>UploadedPreKeyCount\<close> then returns 3.
\<close>

lemma GenOnePreKey_fresh_account_accepted:
  "\<not> is_postgres d \<Longrightarrow>
   (let r1 = GenOnePreKey (store_of d) world0;
        r2 = GenOnePreKey (store_of d) (snd r1);
        r3 = GenOnePreKey (store_of d) (snd r2)
    in map (\<lambda>r. (map_option KeyID (fst (fst r)), snd (fst r))) [r1, r2, r3] =
         [(Some 1, None), (Some 2, None), (Some 3, None)] \<and>
       fst (UploadedPreKeyCount (store_of d) (snd r3)) = (3, None))"
  by (simp add: Let_def GenOnePreKey_eval UploadedPreKeyCount_def)

text \<open>
  C8 asks that on a fresh account three calls of \<open>GenOnePreKey\<close> return the ids 1, 2
  and 3 and that \<open>UploadedPreKeyCount\<close> then returns 3. The template
  \<^verbatim>\<open>insertPreKeyQuery\<close> names its third column with MySQL's back quotes, and
  \<open>genOnePreKey\<close> sends it through \<open>dialectQuery\<close>, which returns it unchanged for
  \<open>postgres\<close>: on a fresh account, with a driver that never fails, PostgreSQL refuses
  every insert with a syntax error, each of the three calls returns a key with the id 1
  together with that error, and \<open>UploadedPreKeyCount\<close> returns 0.
\<close>

theorem GenOnePreKey_postgres_inserts_nothing:
  "(let s = store_of ''postgres'';
        r1 = GenOnePreKey s world0;
        r2 = GenOnePreKey s (snd r1);
        r3 = GenOnePreKey s (snd r2)
    in dialectQuery s insertPreKeyQuery_text = insertPreKeyQuery_text \<and>
       CHR 0x60 \<in> set insertPreKeyQuery_text \<and>
       map (\<lambda>r. (map_option KeyID (fst (fst r)), snd (fst r))) [r1, r2, r3] =
         [(Some 1, Some (Backend ''syntax error at or near `'')),
          (Some 1, Some (Backend ''syntax error at or near `'')),
          (Some 1, Some (Backend ''syntax error at or near `''))] \<and>
       whatsmeow_pre_keys (db (snd r3)) = [] \<and>
       fst (UploadedPreKeyCount s (snd r3)) = (0, None))"
  by (simp add: Let_def GenOnePreKey_eval UploadedPreKeyCount_def dialectQuery_def
      insertPreKeyQuery_text_def)

subsection \<open>C9: chat settings are written column by column\<close>



subsection \<open>C10: a missing version row is the initial state\<close>

text \<open>
  C10. For every name without a stored app-state version row, \<open>GetAppStateVersion\<close>
  returns version 0, a hash of 128 zero bytes and no error, whenever the driver answers
  the query.
\<close>

theorem GetAppStateVersion_missing:
  assumes "fst (backend_call w) = None"
    and "map_of (whatsmeow_app_state_version (db w)) (JID s, name) = None"
  shows "fst (GetAppStateVersion s name w) = (0, replicate 128 0, None)"
  using assms
  by (simp add: GetAppStateVersion_def getAppStateVersionQuery_def backend_call_ok)

theorem GetAppStateVersion_missing_witness:
  "fst (backend_call world0) = None \<and>
   map_of (whatsmeow_app_state_version (db world0)) (JID (store_of ''mysql''), ''regular'') = None \<and>
   fst (GetAppStateVersion (store_of ''mysql'') ''regular'' world0) = (0, replicate 128 0, None)"
  using GetAppStateVersion_missing [of world0 "store_of ''mysql''" "''regular''"]
  by (simp add: world0_def backend_call_def store_of_def)

end
